theory Spec2Isabelle
  imports Complex_Main "HOL-Library.AList"
begin

section \<open>The ticker plugin of Cardinal (plugins/ticker/plugin.py)\<close>

text \<open>
  The plugin is embedded function by function. Python exceptions are values of
  \<open>exn\<close>, and a function that can raise returns \<open>exn + 'a\<close> (\<open>Inl\<close> the
  exception). Python floats are modelled as reals: rounding, infinities and NaN are not
  part of the model. Dictionaries are association lists read with \<open>map_of\<close> and written
  with \<open>AList.update\<close>, which keeps the insertion order the way a Python dict does.
  The outside world (the clock, the HTTP API, the IRC connection, the reactor) is an
  oracle record \<open>env\<close> and a record \<open>world\<close> of what has happened so far.
\<close>

subsection \<open>Exceptions and JSON values\<close>

datatype exn =
    KeyError
  | ValueError
  | IndexError
  | NameError
  | UnboundLocalError
  | TypeError
  | AttributeError
  | ZeroDivisionError
  | ThrottledException
  | RequestException
  | DataNotFound

type_synonym 'a result = "exn + 'a"

datatype json =
    JNull
  | JBool bool
  | JNum real
  | JStr string
  | JArr "json list"
  | JObj "(string \<times> json) list"

text \<open>The constants at the top of the module.\<close>

definition MAX_RETRIES :: nat where
  "MAX_RETRIES = 3"

definition RETRY_WAIT :: nat where
  "RETRY_WAIT = 15"

subsection \<open>Strings\<close>

primrec starts_with :: "string \<Rightarrow> string \<Rightarrow> bool" where
  "starts_with [] s = True"
| "starts_with (c # cs) s = (case s of [] \<Rightarrow> False | d # ds \<Rightarrow> c = d \<and> starts_with cs ds)"

text \<open>Python's \<open>needle in haystack\<close> on two strings.\<close>

primrec is_substring :: "string \<Rightarrow> string \<Rightarrow> bool" where
  "is_substring needle [] = (needle = [])"
| "is_substring needle (c # cs) = (starts_with needle (c # cs) \<or> is_substring needle cs)"

text \<open>\<open>sep.join(parts)\<close>.\<close>

fun join :: "string \<Rightarrow> string list \<Rightarrow> string" where
  "join sep [] = []"
| "join sep [p] = p"
| "join sep (p # q # ps) = p @ sep @ join sep (q # ps)"

definition digit_char :: "nat \<Rightarrow> char" where
  "digit_char d = ''0123456789'' ! (d mod 10)"

fun string_of_nat :: "nat \<Rightarrow> string" where
  "string_of_nat n = (if n < 10 then [digit_char n]
     else string_of_nat (n div 10) @ [digit_char (n mod 10)])"

declare string_of_nat.simps [simp del]

text \<open>\<open>str.zfill\<close>: pad with zeros on the left up to the width.\<close>

definition zfill :: "nat \<Rightarrow> string \<Rightarrow> string" where
  "zfill width s = replicate (width - length s) (CHR ''0'') @ s"

definition upper_char :: "char \<Rightarrow> char" where
  "upper_char c = (case map_of (zip ''abcdefghijklmnopqrstuvwxyz'' ''ABCDEFGHIJKLMNOPQRSTUVWXYZ'') c of
      None \<Rightarrow> c | Some u \<Rightarrow> u)"

text \<open>\<open>str.upper\<close> on the ASCII strings the two command patterns let through.\<close>

definition upper :: "string \<Rightarrow> string" where
  "upper s = map upper_char s"

subsection \<open>Formatting a float with two decimals\<close>

definition round_half_even :: "real \<Rightarrow> int" where
  "round_half_even r = (let f = \<lfloor>r\<rfloor>; d = r - of_int f in
     if d < 1 / 2 then f else if d > 1 / 2 then f + 1 else if even f then f else f + 1)"

text \<open>
  \<open>'{:.2f}'.format(x)\<close>: the sign, the integer part and two decimals of the value
  rounded to the nearest hundredth (ties to even), read on the real number the float
  stands for.
\<close>

definition format_2f :: "real \<Rightarrow> string" where
  "format_2f x = (let n = nat (round_half_even (\<bar>x\<bar> * 100)) in
     (if x < 0 then ''-'' else '''') @ string_of_nat (n div 100) @ ''.'' @
       [digit_char (n mod 100 div 10), digit_char (n mod 10)])"

subsection \<open>get_delta and colorize\<close>

text \<open>
  \<open>float(new_value) / float(old_value) * 100 - 100\<close>; dividing by a zero float
  raises ZeroDivisionError.
\<close>

definition get_delta :: "real \<Rightarrow> real \<Rightarrow> real result" where
  "get_delta new_value old_value =
     (if old_value = 0 then Inl ZeroDivisionError
      else Inr (new_value / old_value * 100 - 100))"

definition colorize :: "real \<Rightarrow> string" where
  "colorize percentage =
     (if percentage > 0 then [CHR 0x03] @ ''09'' @ format_2f percentage @ ''%'' @ [CHR 0x03]
      else [CHR 0x03] @ ''04'' @ format_2f percentage @ ''%'' @ [CHR 0x03])"

subsection \<open>Dates and the clock\<close>

record datetime =
  year :: nat
  month :: nat
  day :: nat
  hour :: nat
  minute :: nat
  second :: nat
  weekday :: nat

definition is_leap :: "nat \<Rightarrow> bool" where
  "is_leap y = (y mod 4 = 0 \<and> (y mod 100 \<noteq> 0 \<or> y mod 400 = 0))"

definition days_in_month :: "nat \<Rightarrow> nat \<Rightarrow> nat" where
  "days_in_month y m =
     (if m = 2 then (if is_leap y then 29 else 28)
      else if m = 4 \<or> m = 6 \<or> m = 9 \<or> m = 11 then 30 else 31)"

text \<open>
  \<open>dt - datetime.timedelta(days=1)\<close>: the calendar day before, at the same time of
  day. (The clock never reads a date in year 1, where Python would overflow.)
\<close>

definition minus_one_day :: "datetime \<Rightarrow> datetime" where
  "minus_one_day dt =
     (let wd = (weekday dt + 6) mod 7 in
      if day dt > 1 then dt\<lparr>day := day dt - 1, weekday := wd\<rparr>
      else if month dt > 1
        then dt\<lparr>month := month dt - 1, day := days_in_month (year dt) (month dt - 1), weekday := wd\<rparr>
      else dt\<lparr>year := year dt - 1, month := 12, day := 31, weekday := wd\<rparr>)"

text \<open>\<open>dt.strftime('%Y-%m-%d')\<close>.\<close>

definition strftime_ymd :: "datetime \<Rightarrow> string" where
  "strftime_ymd dt = zfill 4 (string_of_nat (year dt)) @ ''-'' @
     zfill 2 (string_of_nat (month dt)) @ ''-'' @ zfill 2 (string_of_nat (day dt))"

text \<open>The test of \<open>market_is_open\<close> (and of \<open>tick\<close>) on a reading of the clock.\<close>

definition market_open_at :: "datetime \<Rightarrow> bool" where
  "market_open_at now =
     (let is_market_closed = (weekday now \<ge> 5) \<or>
            (hour now < 9 \<or> hour now \<ge> 17) \<or>
            (hour now = 9 \<and> minute now < 30) \<or>
            (hour now = 16 \<and> minute now > 0)
      in \<not> is_market_closed)"

subsection \<open>The outside world\<close>

type_synonym params = "(string \<times> string) list"

text \<open>The arguments of each message template; floats stay numbers where the source
  prints them with \<open>{}\<close>.\<close>

datatype msg =
    Ticker string
  | PredictionsError string
  | PredictionReport string string real string string real string datetime
  | ClosestGuess "string option" string nat "real option" string
  | PredictionSaved string string string real string string
  | SymbolCorrect string
  | CheckReply string real string

datatype event =
    HttpGet params
  | Sleep nat
  | SendMsg string msg
  | LogWarning
  | LogError
  | LogException
  | CallLater nat

text \<open>
  \<open>clock e n\<close> is what the \<open>n\<close>-th call of \<open>est_now\<close> reads; \<open>http e n p\<close> is the
  outcome of the \<open>n\<close>-th \<open>requests.get(AV_API_URL, params=p)\<close> followed by
  \<open>r.json()\<close>: an exception or the decoded body; \<open>float_of_str e\<close> is Python's
  \<open>float\<close> on a string (\<open>None\<close> where it raises ValueError).
\<close>

record env =
  clock :: "nat \<Rightarrow> datetime"
  http :: "nat \<Rightarrow> params \<Rightarrow> json result"
  float_of_str :: "string \<Rightarrow> real option"

record world =
  reads :: nat
  gets :: nat
  trace :: "event list"

definition emit :: "event \<Rightarrow> world \<Rightarrow> world" where
  "emit ev w = w\<lparr>trace := trace w @ [ev]\<rparr>"

definition est_now :: "env \<Rightarrow> world \<Rightarrow> datetime \<times> world" where
  "est_now e w = (clock e (reads w), w\<lparr>reads := reads w + 1\<rparr>)"

definition market_is_open :: "env \<Rightarrow> world \<Rightarrow> bool \<times> world" where
  "market_is_open e w = (case est_now e w of (now, w1) \<Rightarrow> (market_open_at now, w1))"

definition sleep :: "nat \<Rightarrow> world \<Rightarrow> world" where
  "sleep secs w = emit (Sleep secs) w"

fun send_all :: "string list \<Rightarrow> msg \<Rightarrow> world \<Rightarrow> world" where
  "send_all [] m w = w"
| "send_all (channel # channels) m w = send_all channels m (emit (SendMsg channel m) w)"

subsection \<open>The plugin object\<close>

text \<open>
  \<open>user_info\<close> is the named tuple of \<open>cardinal.bot\<close> (nick, user, vhost). The fields
  of a user who sent a message are strings; a field of a relay bot may be \<open>None\<close>,
  which \<open>is_relay_bot\<close> reads as a wildcard.
\<close>

record 'a user_info =
  nick_of :: 'a
  user_of :: 'a
  vhost_of :: 'a

text \<open>
  \<open>self.config\<close> of a plugin whose configuration is well typed (a string, a list of
  channel names, a mapping from symbols to names); the methods are modelled on it.
\<close>

record config =
  api_key :: string
  channels :: "string list"
  stocks :: "(string \<times> string) list"
  config_relay_bots :: "(string \<times> string option) list list"

text \<open>A stored prediction: (timestamp, base price, predicted price).\<close>

type_synonym prediction = "datetime \<times> real \<times> real"

type_synonym predictions = "(string \<times> (string \<times> prediction) list) list"

record plugin =
  config :: config
  relay_bots :: "string option user_info list"
  predictions :: predictions
  call_id :: "nat option"

text \<open>
  The object as the constructor builds it. The constructor receives the decoded
  configuration, a JSON value (\<open>None\<close> is \<open>JNull\<close>) that is meant to be a dictionary,
  and checks little of it, so here the configuration and the fields of the relay bots
  are JSON values.
\<close>

record new_plugin =
  new_config :: "(string \<times> json) list"
  new_relay_bots :: "json user_info list"
  new_predictions :: predictions
  new_call_id :: "nat option"

subsection \<open>make_av_request\<close>

text \<open>\<open>needle in j\<close> for a string \<open>needle\<close> and a decoded JSON value \<open>j\<close>.\<close>

definition py_in :: "string \<Rightarrow> json \<Rightarrow> bool result" where
  "py_in needle j =
     (case j of
        JObj kvs \<Rightarrow> Inr (map_of kvs needle \<noteq> None)
      | JArr xs \<Rightarrow> Inr (List.member xs (JStr needle))
      | JStr s \<Rightarrow> Inr (is_substring needle s)
      | _ \<Rightarrow> Inl TypeError)"

text \<open>\<open>j[key]\<close> for a string \<open>key\<close>.\<close>

definition py_getitem :: "json \<Rightarrow> string \<Rightarrow> json result" where
  "py_getitem j key =
     (case j of
        JObj kvs \<Rightarrow> (case map_of kvs key of None \<Rightarrow> Inl KeyError | Some v \<Rightarrow> Inr v)
      | _ \<Rightarrow> Inl TypeError)"

text \<open>
  The body of the \<open>try\<close>, on the outcome of \<open>requests.get\<close> and \<open>r.json()\<close>:
  the test for rate limiting is
  \<open>'Note' in result and 'call frequency' in result['Note']\<close>, and whatever is raised
  in the \<open>try\<close> is caught by \<open>except Exception\<close>.
\<close>

definition av_response :: "json result \<Rightarrow> json result" where
  "av_response r =
     (case r of
        Inl ex \<Rightarrow> Inl ex
      | Inr result \<Rightarrow>
          (case py_in ''Note'' result of
             Inl ex \<Rightarrow> Inl ex
           | Inr False \<Rightarrow> Inr result
           | Inr True \<Rightarrow>
               (case py_getitem result ''Note'' of
                  Inl ex \<Rightarrow> Inl ex
                | Inr note \<Rightarrow>
                    (case py_in ''call frequency'' note of
                       Inl ex \<Rightarrow> Inl ex
                     | Inr True \<Rightarrow> Inl ThrottledException
                     | Inr False \<Rightarrow> Inr result))))"

text \<open>One attempt: the request is made, counted and recorded in the trace.\<close>

definition av_try :: "env \<Rightarrow> params \<Rightarrow> world \<Rightarrow> json result \<times> world" where
  "av_try e params w =
     (av_response (http e (gets w) params),
      emit (HttpGet params) (w\<lparr>gets := gets w + 1\<rparr>))"

text \<open>
  The \<open>while retries_remaining > 0\<close> loop, on the value of \<open>retries_remaining\<close> at
  the head of the loop. A loop that is never entered leaves \<open>result\<close> unbound.
\<close>

fun av_loop :: "env \<Rightarrow> params \<Rightarrow> nat \<Rightarrow> world \<Rightarrow> json result \<times> world" where
  "av_loop e params 0 w = (Inl UnboundLocalError, w)"
| "av_loop e params (Suc retries_remaining) w =
     (case av_try e params w of
        (Inr result, w1) \<Rightarrow> (Inr result, w1)
      | (Inl ex, w1) \<Rightarrow>
          (let w2 = emit LogException w1 in
           if retries_remaining = 0 then (Inl ex, w2)
           else av_loop e params retries_remaining (sleep RETRY_WAIT w2)))"

text \<open>The parameters of the request, as the first lines of \<open>make_av_request\<close> set them.\<close>

definition av_params :: "plugin \<Rightarrow> string \<Rightarrow> params option \<Rightarrow> params" where
  "av_params self function params =
     (let params = (case params of None \<Rightarrow> [] | Some p \<Rightarrow> p);
          params = AList.update ''function'' function params;
          params = AList.update ''apikey'' (api_key (config self)) params;
          params = AList.update ''datatype'' ''json'' params
      in params)"

definition make_av_request ::
  "env \<Rightarrow> plugin \<Rightarrow> string \<Rightarrow> params option \<Rightarrow> world \<Rightarrow> json result \<times> world" where
  "make_av_request e self function params w =
     av_loop e (av_params self function params) MAX_RETRIES w"

subsection \<open>get_time_series_daily\<close>

text \<open>\<open>float(v)\<close> on a decoded JSON value.\<close>

definition py_float :: "env \<Rightarrow> json \<Rightarrow> real result" where
  "py_float e v =
     (case v of
        JStr s \<Rightarrow> (case float_of_str e s of None \<Rightarrow> Inl ValueError | Some x \<Rightarrow> Inr x)
      | JNum x \<Rightarrow> Inr x
      | JBool b \<Rightarrow> Inr (if b then 1 else 0)
      | _ \<Rightarrow> Inl TypeError)"

type_synonym values_dict = "(string \<times> real) list"

text \<open>The dictionary comprehension \<open>{k[3:]: float(v) for k, v in values.items()}\<close>.\<close>

fun strip_values :: "env \<Rightarrow> values_dict \<Rightarrow> (string \<times> json) list \<Rightarrow> values_dict result" where
  "strip_values e acc [] = Inr acc"
| "strip_values e acc ((k, v) # kvs) =
     (case py_float e v of
        Inl ex \<Rightarrow> Inl ex
      | Inr x \<Rightarrow> strip_values e (AList.update (drop 3 k) x acc) kvs)"

text \<open>The loop \<open>for date, values in data.items()\<close>, which replaces each value in place.\<close>

fun strip_days :: "env \<Rightarrow> (string \<times> json) list \<Rightarrow> (string \<times> values_dict) list result" where
  "strip_days e [] = Inr []"
| "strip_days e ((date, values) # days) =
     (case values of
        JObj kvs \<Rightarrow>
          (case strip_values e [] kvs of
             Inl ex \<Rightarrow> Inl ex
           | Inr vs \<Rightarrow>
               (case strip_days e days of
                  Inl ex \<Rightarrow> Inl ex
                | Inr rest \<Rightarrow> Inr ((date, vs) # rest)))
      | _ \<Rightarrow> Inl AttributeError)"

text \<open>What \<open>get_time_series_daily\<close> does with the answer of the request.\<close>

definition time_series_of :: "env \<Rightarrow> json \<Rightarrow> (string \<times> values_dict) list result" where
  "time_series_of e data =
     (case py_getitem data ''Time Series (Daily)'' of
        Inl ex \<Rightarrow> Inl ex
      | Inr series \<Rightarrow>
          (case series of
             JObj days \<Rightarrow> strip_days e days
           | _ \<Rightarrow> Inl AttributeError))"

definition get_time_series_daily ::
  "env \<Rightarrow> plugin \<Rightarrow> string \<Rightarrow> string \<Rightarrow> world \<Rightarrow> (string \<times> values_dict) list result \<times> world" where
  "get_time_series_daily e self symbol outputsize w =
     (case make_av_request e self ''TIME_SERIES_DAILY''
             (Some [(''symbol'', symbol), (''outputsize'', outputsize)]) w of
        (Inl ex, w1) \<Rightarrow> (Inl ex, w1)
      | (Inr data, w1) \<Rightarrow> (time_series_of e data, w1))"

subsection \<open>get_daily and get_daily_change\<close>

text \<open>The dictionary \<open>get_daily\<close> returns.\<close>

record daily =
  current :: real
  close_val :: real
  open_val :: real
  percentage :: real

definition values_getitem :: "values_dict \<Rightarrow> string \<Rightarrow> real result" where
  "values_getitem vs key = (case map_of vs key of None \<Rightarrow> Inl KeyError | Some x \<Rightarrow> Inr x)"

text \<open>
  Both \<open>while\<close> loops of \<open>get_daily\<close>:
  \<open>while data.get(d.strftime('%Y-%m-%d'), None) is None and count < 5\<close>.
\<close>

function search_back :: "(string \<times> values_dict) list \<Rightarrow> datetime \<Rightarrow> nat \<Rightarrow> datetime" where
  "search_back data d count =
     (if map_of data (strftime_ymd d) = None \<and> count < 5
      then search_back data (minus_one_day d) (count + 1)
      else d)"
  by pat_completeness auto
termination
  by (relation "measure (\<lambda>(data, d, count). 5 - count)") auto

declare search_back.simps [simp del]

text \<open>The end of \<open>get_daily\<close>, from the two values found.\<close>

definition daily_of :: "values_dict \<Rightarrow> values_dict \<Rightarrow> daily result" where
  "daily_of current_value last_day_value =
     (case values_getitem last_day_value ''close'' of
        Inl ex \<Rightarrow> Inl ex
      | Inr last_close \<Rightarrow>
     (case values_getitem current_value ''close'' of
        Inl ex \<Rightarrow> Inl ex
      | Inr current_close \<Rightarrow>
     (case get_delta last_close current_close of
        Inl ex \<Rightarrow> Inl ex
      | Inr pct \<Rightarrow>
     (case values_getitem current_value ''open'' of
        Inl ex \<Rightarrow> Inl ex
      | Inr current_open \<Rightarrow>
          Inr \<lparr>current = current_close, close_val = current_close,
               open_val = current_open, percentage = pct\<rparr>))))"

text \<open>What \<open>get_daily\<close> does once the series is there, from \<open>today = est_now()\<close> on.\<close>

definition daily_of_series ::
  "env \<Rightarrow> (string \<times> values_dict) list \<Rightarrow> world \<Rightarrow> daily result \<times> world" where
  "daily_of_series e data w1 =
     (case est_now e w1 of (now, w2) \<Rightarrow>
        (let today = search_back data now 0 in
         case map_of data (strftime_ymd today) of
           None \<Rightarrow> (Inl DataNotFound, w2)
         | Some current_value \<Rightarrow>
             (let last_day = search_back data (minus_one_day today) 0 in
              case map_of data (strftime_ymd last_day) of
                None \<Rightarrow> (Inl DataNotFound, w2)
              | Some last_day_value \<Rightarrow> (daily_of current_value last_day_value, w2))))"

definition get_daily :: "env \<Rightarrow> plugin \<Rightarrow> string \<Rightarrow> world \<Rightarrow> daily result \<times> world" where
  "get_daily e self symbol w =
     (case get_time_series_daily e self symbol ''compact'' w of
        (Inl ex, w1) \<Rightarrow> (Inl ex, w1)
      | (Inr data, w1) \<Rightarrow> daily_of_series e data w1)"

definition get_daily_change ::
  "env \<Rightarrow> plugin \<Rightarrow> string \<Rightarrow> world \<Rightarrow> (string \<times> real) result \<times> world" where
  "get_daily_change e self symbol w =
     (case get_daily e self symbol w of
        (Inl ex, w1) \<Rightarrow> (Inl ex, w1)
      | (Inr res, w1) \<Rightarrow> (Inr (symbol, percentage res), w1))"

subsection \<open>The constructor, wait and is_relay_bot\<close>

definition dict_getitem :: "(string \<times> 'v) list \<Rightarrow> string \<Rightarrow> 'v result" where
  "dict_getitem d key = (case map_of d key of None \<Rightarrow> Inl KeyError | Some v \<Rightarrow> Inr v)"

text \<open>Truth value, \<open>len\<close> and iteration of a JSON value.\<close>

definition truthy :: "json \<Rightarrow> bool" where
  "truthy j =
     (case j of
        JNull \<Rightarrow> False
      | JBool b \<Rightarrow> b
      | JNum x \<Rightarrow> x \<noteq> 0
      | JStr s \<Rightarrow> s \<noteq> []
      | JArr xs \<Rightarrow> xs \<noteq> []
      | JObj kvs \<Rightarrow> kvs \<noteq> [])"

definition py_len :: "json \<Rightarrow> nat result" where
  "py_len j =
     (case j of
        JStr s \<Rightarrow> Inr (length s)
      | JArr xs \<Rightarrow> Inr (length xs)
      | JObj kvs \<Rightarrow> Inr (length (remdups (map fst kvs)))
      | _ \<Rightarrow> Inl TypeError)"

text \<open>
  \<open>for x in j\<close>: the elements of a list, the keys of a dictionary, the characters of a
  string; \<open>None\<close>, a number or a boolean is not iterable.
\<close>

definition py_iter :: "json \<Rightarrow> json list result" where
  "py_iter j =
     (case j of
        JArr xs \<Rightarrow> Inr xs
      | JObj kvs \<Rightarrow> Inr (map JStr (remdups (map fst kvs)))
      | JStr s \<Rightarrow> Inr (map (\<lambda>c. JStr [c]) s)
      | _ \<Rightarrow> Inl TypeError)"

text \<open>\<open>d.setdefault(key, default)\<close>: a key that is present keeps its value, also \<open>None\<close>.\<close>

definition setdefault :: "(string \<times> json) list \<Rightarrow> string \<Rightarrow> json \<Rightarrow> (string \<times> json) list" where
  "setdefault d key value =
     (case map_of d key of None \<Rightarrow> d @ [(key, value)] | Some v \<Rightarrow> d)"

text \<open>The loop over \<open>self.config['relay_bots']\<close> that fills \<open>self.relay_bots\<close>.\<close>

fun make_relay_bots :: "json list \<Rightarrow> json user_info list result" where
  "make_relay_bots [] = Inr []"
| "make_relay_bots (relay_bot # rest) =
     (case py_getitem relay_bot ''nick'' of Inl ex \<Rightarrow> Inl ex | Inr n \<Rightarrow>
     (case py_getitem relay_bot ''user'' of Inl ex \<Rightarrow> Inl ex | Inr u \<Rightarrow>
     (case py_getitem relay_bot ''vhost'' of Inl ex \<Rightarrow> Inl ex | Inr v \<Rightarrow>
     (case make_relay_bots rest of Inl ex \<Rightarrow> Inl ex | Inr users \<Rightarrow>
        Inr (\<lparr>nick_of = n, user_of = u, vhost_of = v\<rparr> # users)))))"

text \<open>
  The body of \<open>wait\<close>: it asks the reactor to call \<open>tick\<close> after
  \<open>minutes_to_sleep * 60\<close> seconds; \<open>call_id\<close> keeps the delay of the pending call.
\<close>

definition call_later_tick :: "env \<Rightarrow> world \<Rightarrow> nat \<times> world" where
  "call_later_tick e w =
     (case est_now e w of (now, w1) \<Rightarrow>
        (let minutes_to_sleep = 15 - minute now mod 15 in
         (minutes_to_sleep * 60, emit (CallLater (minutes_to_sleep * 60)) w1)))"

definition wait :: "env \<Rightarrow> plugin \<Rightarrow> world \<Rightarrow> plugin \<times> world" where
  "wait e self w =
     (case call_later_tick e w of (delay, w1) \<Rightarrow> (self\<lparr>call_id := Some delay\<rparr>, w1))"

text \<open>
  \<open>TickerPlugin.__init__\<close> on the configuration it is given. \<open>config or {}\<close> takes
  \<open>None\<close> and every other false value for the empty dictionary, and \<open>setdefault\<close> is
  a method of dictionaries only. \<open>len\<close> of the stocks and the loop over the relay bots
  raise TypeError on a value of the wrong kind, and an entry of \<open>relay_bots\<close> is indexed
  with \<open>'nick'\<close>, \<open>'user'\<close> and \<open>'vhost'\<close>.
\<close>

definition init :: "env \<Rightarrow> json \<Rightarrow> world \<Rightarrow> new_plugin result \<times> world" where
  "init e given w =
     (case (if truthy given then given else JObj []) of
        JObj given_items \<Rightarrow>
     (let cfg = setdefault given_items ''api_key'' JNull;
          cfg = setdefault cfg ''channels'' (JArr []);
          cfg = setdefault cfg ''stocks'' (JArr []);
          cfg = setdefault cfg ''relay_bots'' (JArr [])
      in case dict_getitem cfg ''channels'' of
           Inl ex \<Rightarrow> (Inl ex, w)
         | Inr chans \<Rightarrow>
      (let w1 = (if \<not> truthy chans then emit LogWarning w else w) in
       case dict_getitem cfg ''stocks'' of
           Inl ex \<Rightarrow> (Inl ex, w1)
         | Inr stks \<Rightarrow>
      (let w2 = (if \<not> truthy stks then emit LogWarning w1 else w1) in
       case dict_getitem cfg ''api_key'' of
           Inl ex \<Rightarrow> (Inl ex, w2)
         | Inr key \<Rightarrow>
             if \<not> truthy key then (Inl KeyError, w2)
             else
      (case py_len stks of
           Inl ex \<Rightarrow> (Inl ex, w2)
         | Inr n \<Rightarrow>
             if n > 5 then (Inl ValueError, w2)
             else
      (case dict_getitem cfg ''relay_bots'' of
           Inl ex \<Rightarrow> (Inl ex, w2)
         | Inr bots \<Rightarrow>
      (case py_iter bots of
           Inl ex \<Rightarrow> (Inl ex, w2)
         | Inr entries \<Rightarrow>
      (case make_relay_bots entries of
           Inl ex \<Rightarrow> (Inl ex, w2)
         | Inr users \<Rightarrow>
      (case call_later_tick e w2 of (delay, w3) \<Rightarrow>
         (Inr \<lparr>new_config = cfg, new_relay_bots = users, new_predictions = [],
               new_call_id = Some delay\<rparr>, w3)))))))))
      | _ \<Rightarrow> (Inl AttributeError, w))"

definition is_relay_bot :: "plugin \<Rightarrow> string user_info \<Rightarrow> bool" where
  "is_relay_bot self user =
     list_ex (\<lambda>bot. (nick_of bot = None \<or> nick_of bot = Some (nick_of user)) \<and>
                    (user_of bot = None \<or> user_of bot = Some (user_of user)) \<and>
                    (vhost_of bot = None \<or> vhost_of bot = Some (vhost_of user)))
             (relay_bots self)"

subsection \<open>send_ticker and format_symbol\<close>

definition format_symbol :: "plugin \<Rightarrow> string \<Rightarrow> real \<Rightarrow> string result" where
  "format_symbol self symbol change =
     (case dict_getitem (stocks (config self)) symbol of
        Inl ex \<Rightarrow> Inl ex
      | Inr name \<Rightarrow>
          Inr (name @ '' ('' @ [CHR 0x02] @ symbol @ [CHR 0x02] @ ''): '' @ colorize change))"

text \<open>
  What \<open>get_daily_change\<close> does with the answer of its request: the rest of
  \<open>get_time_series_daily\<close>, of \<open>get_daily\<close> and of \<open>get_daily_change\<close> itself.
\<close>

definition change_of_response ::
  "env \<Rightarrow> string \<Rightarrow> json \<Rightarrow> world \<Rightarrow> (string \<times> real) result \<times> world" where
  "change_of_response e symbol data w =
     (case time_series_of e data of
        Inl ex \<Rightarrow> (Inl ex, w)
      | Inr series \<Rightarrow>
          (case daily_of_series e series w of
             (Inl ex, w1) \<Rightarrow> (Inl ex, w1)
           | (Inr res, w1) \<Rightarrow> (Inr (symbol, percentage res), w1)))"

text \<open>
  The deferreds of \<open>send_ticker\<close>: one \<open>get_daily_change\<close> per configured symbol, all
  called before the \<open>DeferredList\<close> is waited for. Each call runs as far as its first
  request, which is handed to a thread, so the requests and the waits of the symbols
  interleave. The model runs the deferreds in step, which is the schedule on which the
  requests complete in the order they were started: in each round every deferred that
  has not fired starts its next request, in the order of the symbols, and then the
  answers are handled in that order. A deferred is waiting to start a request for its
  symbol, has the answer of its request, or has fired with its outcome.
\<close>

datatype fetch =
    Waiting string
  | Answered string "json result"
  | Fired "(string \<times> real) result"

fun start_requests :: "env \<Rightarrow> plugin \<Rightarrow> fetch list \<Rightarrow> world \<Rightarrow> fetch list \<times> world" where
  "start_requests e self [] w = ([], w)"
| "start_requests e self (Waiting symbol # fs) w =
     (case av_try e (av_params self ''TIME_SERIES_DAILY''
                       (Some [(''symbol'', symbol), (''outputsize'', ''compact'')])) w of
        (r, w1) \<Rightarrow>
          (case start_requests e self fs w1 of (fs1, w2) \<Rightarrow> (Answered symbol r # fs1, w2)))"
| "start_requests e self (f # fs) w =
     (case start_requests e self fs w of (fs1, w1) \<Rightarrow> (f # fs1, w1))"

text \<open>
  The answers of a round, with \<open>retries_remaining\<close> as the loop of \<open>make_av_request\<close>
  has it after the decrement: a good answer is worked into the outcome of the deferred;
  a failure is logged and, unless it was the last try, followed by the 15 second wait.
\<close>

fun handle_answers :: "env \<Rightarrow> nat \<Rightarrow> fetch list \<Rightarrow> world \<Rightarrow> fetch list \<times> world" where
  "handle_answers e retries_remaining [] w = ([], w)"
| "handle_answers e retries_remaining (Answered symbol (Inr data) # fs) w =
     (case change_of_response e symbol data w of
        (r, w1) \<Rightarrow>
          (case handle_answers e retries_remaining fs w1 of
             (fs1, w2) \<Rightarrow> (Fired r # fs1, w2)))"
| "handle_answers e retries_remaining (Answered symbol (Inl ex) # fs) w =
     (let w1 = emit LogException w in
      if retries_remaining = 0
      then (case handle_answers e retries_remaining fs w1 of
              (fs1, w2) \<Rightarrow> (Fired (Inl ex) # fs1, w2))
      else (case handle_answers e retries_remaining fs (sleep RETRY_WAIT w1) of
              (fs1, w2) \<Rightarrow> (Waiting symbol # fs1, w2)))"
| "handle_answers e retries_remaining (f # fs) w =
     (case handle_answers e retries_remaining fs w of (fs1, w1) \<Rightarrow> (f # fs1, w1))"

fun run_fetches :: "env \<Rightarrow> plugin \<Rightarrow> nat \<Rightarrow> fetch list \<Rightarrow> world \<Rightarrow> fetch list \<times> world" where
  "run_fetches e self 0 fs w = (fs, w)"
| "run_fetches e self (Suc retries_remaining) fs w =
     (case start_requests e self fs w of
        (fs1, w1) \<Rightarrow>
          (case handle_answers e retries_remaining fs1 w1 of
             (fs2, w2) \<Rightarrow> run_fetches e self retries_remaining fs2 w2))"

text \<open>
  The outcome of a deferred for the \<open>DeferredList\<close>: \<open>Inl\<close> is \<open>(False, failure)\<close>,
  \<open>Inr\<close> is \<open>(True, result)\<close>. A deferred whose loop was never entered has no result to
  return.
\<close>

definition fired :: "fetch \<Rightarrow> (string \<times> real) result" where
  "fired f = (case f of Fired r \<Rightarrow> r | _ \<Rightarrow> Inl UnboundLocalError)"

definition fetch_changes ::
  "env \<Rightarrow> plugin \<Rightarrow> string list \<Rightarrow> world \<Rightarrow> (string \<times> real) result list \<times> world" where
  "fetch_changes e self symbols w =
     (case run_fetches e self MAX_RETRIES (map Waiting symbols) w of
        (fs, w1) \<Rightarrow> (map fired fs, w1))"

text \<open>
  The loop \<open>for success, result in dl_results\<close>, with the dictionary \<open>results\<close> and
  the local variable \<open>change\<close> (\<open>None\<close> while it is unbound). In the branch of a
  failed request the argument of \<open>logger.error\<close> is
  \<open>"... {} ... {}".format(result.getErrorMessage())\<close>: two replacement fields and one
  argument, so \<open>str.format\<close> raises IndexError, before anything is logged and before
  \<open>del results[symbol]\<close>.
\<close>

fun loop_results ::
  "(string \<times> real option) list \<Rightarrow> real option \<Rightarrow> (string \<times> real) result list \<Rightarrow>
     ((string \<times> real option) list \<times> real option) result" where
  "loop_results results change [] = Inr (results, change)"
| "loop_results results change (Inl failure # rest) = Inl IndexError"
| "loop_results results change (Inr (symbol, new_change) # rest) =
     loop_results (AList.update symbol (Some new_change) results) (Some new_change) rest"

text \<open>
  The loop \<open>for symbol, result in results.items()\<close>, which appends
  \<open>self.format_symbol(symbol, change)\<close>: the variable read is \<open>change\<close>, as the first
  loop left it.
\<close>

fun format_results ::
  "plugin \<Rightarrow> real option \<Rightarrow> (string \<times> real option) list \<Rightarrow> string list result" where
  "format_results self change [] = Inr []"
| "format_results self change ((symbol, result) # rest) =
     (case change of
        None \<Rightarrow> Inl UnboundLocalError
      | Some c \<Rightarrow>
          (case format_symbol self symbol c of
             Inl ex \<Rightarrow> Inl ex
           | Inr part \<Rightarrow>
               (case format_results self change rest of
                  Inl ex \<Rightarrow> Inl ex
                | Inr parts \<Rightarrow> Inr (part # parts))))"

definition send_ticker :: "env \<Rightarrow> plugin \<Rightarrow> world \<Rightarrow> unit result \<times> world" where
  "send_ticker e self w =
     (let results = map (\<lambda>(symbol, name). (symbol, None)) (stocks (config self)) in
      case fetch_changes e self (map fst (stocks (config self))) w of (dl_results, w1) \<Rightarrow>
        (case loop_results results None dl_results of
           Inl ex \<Rightarrow> (Inl ex, w1)
         | Inr (results, change) \<Rightarrow>
             (case format_results self change results of
                Inl ex \<Rightarrow> (Inl ex, w1)
              | Inr message_parts \<Rightarrow>
                  (Inr (), send_all (channels (config self))
                             (Ticker (join '' | '' message_parts)) w1))))"

subsection \<open>do_predictions and send_prediction\<close>

text \<open>
  A loop \<open>for channel in self.config["channels"]: self.cardinal.sendMsg(channel, m)\<close>
  whose message is built inside the loop: with no channel nothing is evaluated, and
  otherwise what building the message raises is raised before the first send.
\<close>

definition send_each :: "string list \<Rightarrow> msg result \<Rightarrow> world \<Rightarrow> unit result \<times> world" where
  "send_each chans m w =
     (if chans = [] then (Inr (), w)
      else case m of Inl ex \<Rightarrow> (Inl ex, w) | Inr text \<Rightarrow> (Inr (), send_all chans text w))"

text \<open>\<open>self.predictions[symbol]\<close> read on the \<open>defaultdict(dict)\<close>.\<close>

definition predictions_for :: "plugin \<Rightarrow> string \<Rightarrow> (string \<times> prediction) list" where
  "predictions_for self symbol =
     (case map_of (predictions self) symbol of None \<Rightarrow> [] | Some d \<Rightarrow> d)"

text \<open>
  \<open>send_prediction\<close> is only called by \<open>do_predictions\<close>, for a symbol and a nick that
  are in \<open>self.predictions\<close>.
\<close>

definition send_prediction ::
  "env \<Rightarrow> plugin \<Rightarrow> string \<Rightarrow> string \<Rightarrow> real \<Rightarrow> world \<Rightarrow> unit result \<times> world" where
  "send_prediction e self nick symbol actual w =
     (case market_is_open e w of (is_open, w1) \<Rightarrow>
        (let market_open_close = (if is_open then ''open'' else ''close'') in
         case dict_getitem (predictions_for self symbol) nick of
           Inl ex \<Rightarrow> (Inl ex, w1)
         | Inr (dt, base, prediction) \<Rightarrow>
             send_each (channels (config self))
               (case get_delta prediction base of
                  Inl ex \<Rightarrow> Inl ex
                | Inr d1 \<Rightarrow>
                    (case get_delta actual base of
                       Inl ex \<Rightarrow> Inl ex
                     | Inr d2 \<Rightarrow>
                         Inr (PredictionReport nick symbol prediction (colorize d1)
                                market_open_close actual (colorize d2) dt)))
               w1))"

text \<open>
  The loop \<open>for nick, data in self.predictions[symbol].items()\<close> with its three
  variables \<open>closest_prediction\<close>, \<open>closest_delta\<close> and \<open>closest_nick\<close>.
  \<open>not closest_delta\<close> holds for \<open>None\<close> and for \<open>0.0\<close>.
\<close>

fun loop_nicks ::
  "env \<Rightarrow> plugin \<Rightarrow> string \<Rightarrow> real \<Rightarrow> (string \<times> prediction) list \<Rightarrow>
     real option \<times> real option \<times> string option \<Rightarrow> world \<Rightarrow>
     (real option \<times> real option \<times> string option) result \<times> world" where
  "loop_nicks e self symbol actual [] closest w = (Inr closest, w)"
| "loop_nicks e self symbol actual ((nick, (dt, base, prediction)) # rest)
       (closest_prediction, closest_delta, closest_nick) w =
     (let delta = \<bar>actual - prediction\<bar>;
          closest = (if (case closest_delta of None \<Rightarrow> True | Some c \<Rightarrow> c = 0 \<or> delta < c)
                     then (Some prediction, Some delta, Some nick)
                     else (closest_prediction, closest_delta, closest_nick))
      in case send_prediction e self nick symbol actual w of
           (Inl ex, w1) \<Rightarrow> (Inl ex, w1)
         | (Inr u, w1) \<Rightarrow> loop_nicks e self symbol actual rest closest w1)"

text \<open>The message about the closest guess; \<open>float(None)\<close> raises TypeError.\<close>

definition closest_message ::
  "plugin \<Rightarrow> string \<Rightarrow> real \<Rightarrow> real option \<times> real option \<times> string option \<Rightarrow> msg result" where
  "closest_message self symbol actual closest =
     (case closest of (closest_prediction, closest_delta, closest_nick) \<Rightarrow>
        (case closest_prediction of
           None \<Rightarrow> Inl TypeError
         | Some p \<Rightarrow>
             (case get_delta p actual of
                Inl ex \<Rightarrow> Inl ex
              | Inr d \<Rightarrow>
                  Inr (ClosestGuess closest_nick symbol (length (predictions_for self symbol))
                         closest_prediction (colorize d)))))"

text \<open>
  The loop \<open>for symbol in self.predictions\<close>. The \<open>except Exception\<close> clause logs,
  tells every channel and goes on with the next symbol.
\<close>

fun loop_symbols :: "env \<Rightarrow> plugin \<Rightarrow> string list \<Rightarrow> world \<Rightarrow> unit result \<times> world" where
  "loop_symbols e self [] w = (Inr (), w)"
| "loop_symbols e self (symbol # symbols) w =
     (case get_daily e self symbol w of
        (Inl ex, w1) \<Rightarrow>
          loop_symbols e self symbols
            (send_all (channels (config self)) (PredictionsError symbol) (emit LogException w1))
      | (Inr data, w1) \<Rightarrow>
          (case market_is_open e w1 of (is_open, w2) \<Rightarrow>
             (let actual = (if is_open then open_val data else close_val data) in
              case loop_nicks e self symbol actual (predictions_for self symbol)
                     (None, None, None) w2 of
                (Inl ex, w3) \<Rightarrow> (Inl ex, w3)
              | (Inr closest, w3) \<Rightarrow>
                  (case send_each (channels (config self))
                          (closest_message self symbol actual closest) w3 of
                     (Inl ex, w4) \<Rightarrow> (Inl ex, w4)
                   | (Inr u, w4) \<Rightarrow> loop_symbols e self symbols (sleep 15 w4)))))"

definition do_predictions :: "env \<Rightarrow> plugin \<Rightarrow> world \<Rightarrow> unit result \<times> plugin \<times> world" where
  "do_predictions e self w =
     (case loop_symbols e self (map fst (predictions self)) w of
        (Inl ex, w1) \<Rightarrow> (Inl ex, self, w1)
      | (Inr u, w1) \<Rightarrow> (Inr (), self\<lparr>predictions := []\<rparr>, w1))"

subsection \<open>predict, parse_prediction and save_prediction\<close>

text \<open>The groups of a message that matched \<open>PREDICT_REGEX\<close>.\<close>

record predict_match =
  group1 :: "string option"
  group2 :: string
  group3 :: "string option"
  group4 :: string

definition parse_prediction ::
  "env \<Rightarrow> plugin \<Rightarrow> string user_info \<Rightarrow> predict_match \<Rightarrow> world \<Rightarrow>
     (string \<times> string \<times> real \<times> real) option result \<times> world" where
  "parse_prediction e self user m w =
     (let relayed = (case group1 m of None \<Rightarrow> False | Some g \<Rightarrow> g \<noteq> []) in
      if relayed \<and> \<not> is_relay_bot self user then (Inr None, w)
      else
        (let nick = (if relayed then (case group1 m of None \<Rightarrow> nick_of user | Some g \<Rightarrow> g)
                     else nick_of user);
             symbol = upper (group2 m)
         in case get_daily e self symbol w of
              (Inl ex, w1) \<Rightarrow> (Inl ex, w1)
            | (Inr data, w1) \<Rightarrow>
                (case market_is_open e w1 of (is_open, w2) \<Rightarrow>
                   (let base = (if is_open then open_val data else close_val data) in
                    case float_of_str e (group4 m) of
                      None \<Rightarrow> (Inl ValueError, w2)
                    | Some amount \<Rightarrow>
                        (let negative = (group3 m = Some ''-'');
                             prediction = amount * (1 / 100) * base;
                             prediction = (if negative then base - prediction
                                           else base + prediction)
                         in (Inr (Some (nick, symbol, prediction, base)), w2))))))"

text \<open>
  \<open>self.predictions[symbol][nick] = (est_now(), base, prediction)\<close>: the
  \<open>defaultdict\<close> makes the inner dictionary when the symbol is new.
\<close>

definition save_prediction ::
  "env \<Rightarrow> plugin \<Rightarrow> string \<Rightarrow> string \<Rightarrow> real \<Rightarrow> real \<Rightarrow> world \<Rightarrow> plugin \<times> world" where
  "save_prediction e self symbol nick base prediction w =
     (case est_now e w of (now, w1) \<Rightarrow>
        (self\<lparr>predictions :=
            AList.update symbol
              (AList.update nick (now, base, prediction) (predictions_for self symbol))
              (predictions self)\<rparr>, w1))"

text \<open>
  \<open>predict\<close>. Reading \<open>self.predictions[symbol]\<close> in the \<open>try\<close> already adds an empty
  dictionary for a new symbol. The \<open>else\<close> branch of the \<open>try\<close> formats the old
  prediction with \<open>old_datetime.strftime(...)\<close>, and no variable \<open>old_datetime\<close>
  exists (the timestamp was bound to \<open>dt\<close>): after the arguments before it are
  evaluated, the name lookup raises NameError.
\<close>

definition predict ::
  "env \<Rightarrow> plugin \<Rightarrow> string user_info \<Rightarrow> string \<Rightarrow> predict_match \<Rightarrow> world \<Rightarrow>
     unit result \<times> plugin \<times> world" where
  "predict e self user channel m w =
     (case parse_prediction e self user m w of
        (Inl ex, w1) \<Rightarrow> (Inl ex, self, w1)
      | (Inr None, w1) \<Rightarrow> (Inr (), self, w1)
      | (Inr (Some (nick, symbol, prediction, base)), w1) \<Rightarrow>
          (let self1 = self\<lparr>predictions :=
                         AList.update symbol (predictions_for self symbol) (predictions self)\<rparr>
           in case map_of (predictions_for self1 symbol) nick of
                Some (dt, old_base, old_prediction) \<Rightarrow>
                  (case get_delta old_prediction old_base of
                     Inl ex \<Rightarrow> (Inl ex, self1, w1)
                   | Inr d \<Rightarrow> (Inl NameError, self1, w1))
              | None \<Rightarrow>
                  (let old_str = [] in
                   case save_prediction e self1 symbol nick base prediction w1 of
                     (self2, w2) \<Rightarrow>
                       (case market_is_open e w2 of (is_open, w3) \<Rightarrow>
                          (case get_delta prediction base of
                             Inl ex \<Rightarrow> (Inl ex, self2, w3)
                           | Inr d \<Rightarrow>
                               (Inr (), self2,
                                emit (SendMsg channel
                                        (PredictionSaved nick symbol
                                           (if is_open then ''close'' else ''open'')
                                           prediction (colorize d) old_str)) w3))))))"

subsection \<open>check\<close>

definition check ::
  "env \<Rightarrow> plugin \<Rightarrow> string user_info \<Rightarrow> string \<Rightarrow> string option \<Rightarrow> string \<Rightarrow> world \<Rightarrow>
     unit result \<times> world" where
  "check e self user channel relay_nick symbol_text w =
     (let relayed = (case relay_nick of None \<Rightarrow> False | Some g \<Rightarrow> g \<noteq> []) in
      if relayed \<and> \<not> is_relay_bot self user then (Inr (), w)
      else
        (let nick = (if relayed then (case relay_nick of None \<Rightarrow> nick_of user | Some g \<Rightarrow> g)
                     else nick_of user);
             symbol = upper symbol_text
         in case get_daily e self symbol w of
              (Inl exc, w1) \<Rightarrow>
                (Inr (), emit (SendMsg channel (SymbolCorrect nick)) (emit LogWarning w1))
            | (Inr data, w1) \<Rightarrow>
                (Inr (), emit (SendMsg channel
                                 (CheckReply symbol (current data) (colorize (percentage data))))
                           w1)))"

section \<open>Inputs for the statements\<close>

text \<open>\<open>days_before k d\<close> is the date \<open>k\<close> calendar days before \<open>d\<close>.\<close>

definition days_before :: "nat \<Rightarrow> datetime \<Rightarrow> datetime" where
  "days_before k d = (minus_one_day ^^ k) d"

text \<open>
  A clock that reads Tuesday 2020-03-10, 10:00 (the market is open), an API that knows
  the two symbols AAPL and MSFT, and a plugin configured with them. The AAPL series has
  the days 2020-03-10 and 2020-03-09; the MSFT series stops on Monday 2020-03-09 and the
  day before it is Friday 2020-03-06.
\<close>

definition tuesday :: datetime where
  "tuesday = \<lparr>year = 2020, month = 3, day = 10, hour = 10, minute = 0, second = 0, weekday = 1\<rparr>"

definition fixed_clock :: "nat \<Rightarrow> datetime" where
  "fixed_clock n = tuesday"

definition float_table :: "string \<Rightarrow> real option" where
  "float_table = map_of [(''200.0'', 200), (''190.0'', 190), (''100.0'', 100), (''95.0'', 95),
                         (''80.0'', 80), (''5'', 5)]"

definition aapl_body :: json where
  "aapl_body = JObj [(''Time Series (Daily)'', JObj
     [(''2020-03-10'', JObj [(''1. open'', JStr ''190.0''), (''4. close'', JStr ''200.0'')]),
      (''2020-03-09'', JObj [(''1. open'', JStr ''95.0''), (''4. close'', JStr ''100.0'')])])]"

definition msft_body :: json where
  "msft_body = JObj [(''Time Series (Daily)'', JObj
     [(''2020-03-09'', JObj [(''1. open'', JStr ''95.0''), (''4. close'', JStr ''100.0'')]),
      (''2020-03-06'', JObj [(''1. open'', JStr ''80.0''), (''4. close'', JStr ''80.0'')])])]"

definition throttled_body :: json where
  "throttled_body =
     JObj [(''Note'', JStr ''Our standard API call frequency is 5 calls per minute.'')]"

definition market_http :: "nat \<Rightarrow> params \<Rightarrow> json result" where
  "market_http n p =
     (if map_of p ''symbol'' = Some ''AAPL'' then Inr aapl_body
      else if map_of p ''symbol'' = Some ''MSFT'' then Inr msft_body
      else Inl RequestException)"

text \<open>The same API while every request for AAPL fails.\<close>

definition aapl_down_http :: "nat \<Rightarrow> params \<Rightarrow> json result" where
  "aapl_down_http n p =
     (if map_of p ''symbol'' = Some ''MSFT'' then Inr msft_body else Inl RequestException)"

text \<open>An API that is down: every request raises.\<close>

definition all_down_http :: "nat \<Rightarrow> params \<Rightarrow> json result" where
  "all_down_http n p = Inl RequestException"

text \<open>An API that answers the first request with its rate-limiting note.\<close>

definition throttled_once_http :: "nat \<Rightarrow> params \<Rightarrow> json result" where
  "throttled_once_http n p = (if n = 0 then Inr throttled_body else Inr aapl_body)"

definition market_env :: env where
  "market_env = \<lparr>clock = fixed_clock, http = market_http, float_of_str = float_table\<rparr>"

definition aapl_down_env :: env where
  "aapl_down_env = \<lparr>clock = fixed_clock, http = aapl_down_http, float_of_str = float_table\<rparr>"

definition all_down_env :: env where
  "all_down_env = \<lparr>clock = fixed_clock, http = all_down_http, float_of_str = float_table\<rparr>"

definition throttled_once_env :: env where
  "throttled_once_env =
     \<lparr>clock = fixed_clock, http = throttled_once_http, float_of_str = float_table\<rparr>"

definition world0 :: world where
  "world0 = \<lparr>reads = 0, gets = 0, trace = []\<rparr>"

text \<open>The parameters \<open>get_time_series_daily\<close> sends for a symbol.\<close>

definition daily_params :: "plugin \<Rightarrow> string \<Rightarrow> params" where
  "daily_params self symbol = [(''symbol'', symbol), (''outputsize'', ''compact''),
     (''function'', ''TIME_SERIES_DAILY''), (''apikey'', api_key (config self)),
     (''datatype'', ''json'')]"

definition ticker_plugin :: plugin where
  "ticker_plugin =
     \<lparr>config = \<lparr>api_key = ''key'', channels = [''#stocks''],
                 stocks = [(''AAPL'', ''Apple''), (''MSFT'', ''Microsoft'')],
                 config_relay_bots = []\<rparr>,
      relay_bots = [], predictions = [], call_id = None\<rparr>"

text \<open>The plugin with one stored prediction for each symbol.\<close>

definition game_plugin :: plugin where
  "game_plugin = ticker_plugin\<lparr>predictions :=
     [(''AAPL'', [(''alice'', (tuesday, 190, 199))]),
      (''MSFT'', [(''bob'', (tuesday, 95, 99))])]\<rparr>"

definition alice :: "string user_info" where
  "alice = \<lparr>nick_of = ''alice'', user_of = ''al'', vhost_of = ''example.org''\<rparr>"

text \<open>The groups of alice's message \<open>!predict aapl +5%\<close>.\<close>

definition alice_predicts :: predict_match where
  "alice_predicts = \<lparr>group1 = None, group2 = ''aapl'', group3 = Some ''+'', group4 = ''5''\<rparr>"

text \<open>
  Configurations: one whose relay bot has a nick and no user or vhost key, one whose
  stocks are null, one with six stocks and one with a single stock.
\<close>

definition relay_config :: "(string \<times> json) list" where
  "relay_config =
     [(''api_key'', JStr ''key''), (''channels'', JArr [JStr ''#stocks'']),
      (''stocks'', JObj [(''AAPL'', JStr ''Apple'')]),
      (''relay_bots'', JArr [JObj [(''nick'', JStr ''relay'')]])]"

definition null_stocks_config :: "(string \<times> json) list" where
  "null_stocks_config =
     [(''api_key'', JStr ''key''), (''channels'', JArr [JStr ''#stocks'']),
      (''stocks'', JNull)]"

definition six_stocks_config :: "(string \<times> json) list" where
  "six_stocks_config =
     [(''api_key'', JStr ''key''), (''channels'', JArr [JStr ''#stocks'']),
      (''stocks'', JObj [(''AAPL'', JStr ''Apple''), (''MSFT'', JStr ''Microsoft''),
                         (''GOOG'', JStr ''Google''), (''AMZN'', JStr ''Amazon''),
                         (''TSLA'', JStr ''Tesla''), (''NFLX'', JStr ''Netflix'')]),
      (''relay_bots'',
         JArr [JObj [(''nick'', JStr ''relay''), (''user'', JNull), (''vhost'', JNull)]])]"

definition one_stock_config :: "(string \<times> json) list" where
  "one_stock_config =
     [(''api_key'', JStr ''key''), (''channels'', JArr [JStr ''#stocks'']),
      (''stocks'', JObj [(''AAPL'', JStr ''Apple'')]),
      (''relay_bots'',
         JArr [JObj [(''nick'', JStr ''relay''), (''user'', JNull), (''vhost'', JNull)]])]"

text \<open>An API on which the first three requests made fail, whatever they ask for.\<close>

definition three_failures_http :: "nat \<Rightarrow> params \<Rightarrow> json result" where
  "three_failures_http n p = (if n < 3 then Inl RequestException else market_http n p)"

definition three_failures_env :: env where
  "three_failures_env =
     \<lparr>clock = fixed_clock, http = three_failures_http, float_of_str = float_table\<rparr>"

text \<open>The messages sent so far, and the number of calls of \<open>logger.error\<close>.\<close>

fun sent_messages :: "event list \<Rightarrow> (string \<times> msg) list" where
  "sent_messages [] = []"
| "sent_messages (SendMsg channel m # evs) = (channel, m) # sent_messages evs"
| "sent_messages (ev # evs) = sent_messages evs"

definition logged_errors :: "event list \<Rightarrow> nat" where
  "logged_errors evs = count_list evs LogError"

section \<open>Supporting lemmas\<close>

subsection \<open>The backward search\<close>

lemma days_before_0: "days_before 0 d = d"
  by (simp add: days_before_def)

lemma days_before_Suc: "days_before (Suc k) d = days_before k (minus_one_day d)"
  by (simp add: days_before_def funpow_swap1)

lemma days_before_add: "days_before i (days_before k d) = days_before (k + i) d"
  by (simp add: days_before_def funpow_add add.commute)

lemma minus_one_day_days_before: "minus_one_day (days_before k d) = days_before (k + 1) d"
  by (simp add: days_before_def)

lemma days_before_unfold:
  "days_before 0 d = d"
  "days_before 1 d = minus_one_day d"
  "days_before (Suc 0) d = minus_one_day d"
  "days_before 2 d = minus_one_day (minus_one_day d)"
  "days_before 3 d = minus_one_day (minus_one_day (minus_one_day d))"
  "days_before 4 d = minus_one_day (minus_one_day (minus_one_day (minus_one_day d)))"
  by (simp_all add: days_before_def eval_nat_numeral)

text \<open>The search stops at the first day that is in the data, when one is in reach.\<close>

lemma search_back_found:
  "count + k \<le> 5 \<Longrightarrow> map_of data (strftime_ymd (days_before k d)) \<noteq> None \<Longrightarrow>
   (\<forall>i<k. map_of data (strftime_ymd (days_before i d)) = None) \<Longrightarrow>
   search_back data d count = days_before k d"
proof (induction k arbitrary: d count)
  case 0
  from 0 have "map_of data (strftime_ymd d) \<noteq> None" by (simp add: days_before_0)
  then have "search_back data d count = d" by (subst search_back.simps) auto
  then show ?case by (simp add: days_before_0)
next
  case (Suc k)
  have absent: "map_of data (strftime_ymd d) = None"
    using Suc.prems(3) days_before_0 by (metis zero_less_Suc)
  have lt: "count < 5" using Suc.prems(1) by simp
  have step: "search_back data d count = search_back data (minus_one_day d) (count + 1)"
    using absent lt by (subst search_back.simps) simp
  have "search_back data (minus_one_day d) (count + 1) = days_before k (minus_one_day d)"
  proof (rule Suc.IH)
    show "count + 1 + k \<le> 5" using Suc.prems(1) by simp
    show "map_of data (strftime_ymd (days_before k (minus_one_day d))) \<noteq> None"
      using Suc.prems(2) by (simp add: days_before_Suc)
    show "\<forall>i<k. map_of data (strftime_ymd (days_before i (minus_one_day d))) = None"
      using Suc.prems(3) by (metis days_before_Suc Suc_less_eq)
  qed
  then show ?case using step by (simp add: days_before_Suc)
qed

text \<open>When no day in reach is in the data, the day the search ends on is not either.\<close>

lemma search_back_missing:
  "count \<le> 5 \<Longrightarrow>
   (\<forall>i. i + count \<le> 5 \<longrightarrow> map_of data (strftime_ymd (days_before i d)) = None) \<Longrightarrow>
   map_of data (strftime_ymd (search_back data d count)) = None"
proof (induction data d count rule: search_back.induct)
  case (1 data d count)
  have absent: "map_of data (strftime_ymd d) = None"
    using "1.prems" days_before_0 by (metis add_0)
  show ?case
  proof (cases "count < 5")
    case True
    have step: "search_back data d count = search_back data (minus_one_day d) (count + 1)"
      using absent True by (subst search_back.simps) simp
    have "map_of data (strftime_ymd (search_back data (minus_one_day d) (count + 1))) = None"
    proof (rule "1.IH")
      show "map_of data (strftime_ymd d) = None \<and> count < 5" using absent True by simp
      show "count + 1 \<le> 5" using True by simp
      show "\<forall>i. i + (count + 1) \<le> 5 \<longrightarrow>
              map_of data (strftime_ymd (days_before i (minus_one_day d))) = None"
        using "1.prems"(2) by (metis days_before_Suc add_Suc_shift Suc_eq_plus1 add.commute)
    qed
    then show ?thesis using step by simp
  next
    case False
    then have "search_back data d count = d" by (subst search_back.simps) simp
    then show ?thesis using absent by simp
  qed
qed

subsection \<open>The constructor and the report loop\<close>

lemma map_of_setdefault:
  "map_of (setdefault d key value) k =
     (if k = key \<and> map_of d key = None then Some value else map_of d k)"
  by (auto simp: setdefault_def map_add_def split: option.splits)

lemma make_relay_bots_ok:
  "\<forall>b\<in>set bots. \<exists>kvs. b = JObj kvs \<and> map_of kvs ''nick'' \<noteq> None \<and>
       map_of kvs ''user'' \<noteq> None \<and> map_of kvs ''vhost'' \<noteq> None
   \<Longrightarrow> \<exists>users. make_relay_bots bots = Inr users"
  by (induction bots) (auto simp: py_getitem_def split: option.splits sum.splits)

text \<open>A run in which every fetch fails goes through all the symbols and returns.\<close>

lemma loop_symbols_all_failed:
  "\<forall>symbol \<in> set symbols. \<forall>w. \<exists>ex. fst (get_daily e self symbol w) = Inl ex
    \<Longrightarrow> fst (loop_symbols e self symbols w) = Inr ()"
proof (induction symbols arbitrary: w)
  case Nil
  then show ?case by simp
next
  case (Cons s ss)
  obtain ex w1 where g: "get_daily e self s w = (Inl ex, w1)"
    using Cons.prems by (metis list.set_intros(1) prod.collapse)
  show ?case using Cons g by simp
qed

subsection \<open>The deferreds of send_ticker\<close>

text \<open>\<open>get_daily_change\<close> is its request followed by the work on the answer.\<close>

lemma get_daily_change_request:
  "get_daily_change e self symbol w =
     (case make_av_request e self ''TIME_SERIES_DAILY''
             (Some [(''symbol'', symbol), (''outputsize'', ''compact'')]) w of
        (Inl ex, w1) \<Rightarrow> (Inl ex, w1)
      | (Inr data, w1) \<Rightarrow> change_of_response e symbol data w1)"
  by (simp add: get_daily_change_def get_daily_def get_time_series_daily_def
      change_of_response_def split: prod.splits sum.splits)

text \<open>A single deferred run in step is \<open>get_daily_change\<close> run on its own.\<close>

lemma fetch_changes_single:
  "fetch_changes e self [symbol] w =
     (case get_daily_change e self symbol w of (r, w1) \<Rightarrow> ([r], w1))"
  by (simp add: fetch_changes_def get_daily_change_request make_av_request_def MAX_RETRIES_def
      numeral_3_eq_3 av_try_def fired_def Let_def split: prod.splits sum.splits)

text \<open>One failed deferred is enough for the loop over the results to raise.\<close>

lemma loop_results_failure:
  "Inl ex \<in> set dl_results \<Longrightarrow> loop_results results change dl_results = Inl IndexError"
proof (induction dl_results arbitrary: results change)
  case Nil
  then show ?case by simp
next
  case (Cons r rs)
  show ?case
  proof (cases r)
    case (Inl failure)
    then show ?thesis by simp
  next
    case (Inr sc)
    then have "Inl ex \<in> set rs" using Cons.prems by auto
    then show ?thesis using Inr Cons.IH by (cases sc) simp
  qed
qed

lemma send_ticker_failure:
  assumes "Inl ex \<in> set (fst (fetch_changes e self (map fst (stocks (config self))) w))"
  shows "send_ticker e self w =
           (Inl IndexError, snd (fetch_changes e self (map fst (stocks (config self))) w))"
proof -
  obtain dl_results w1 where
    fetch: "fetch_changes e self (map fst (stocks (config self))) w = (dl_results, w1)"
    by (cases "fetch_changes e self (map fst (stocks (config self))) w")
  have "Inl ex \<in> set dl_results" using assms fetch by simp
  then show ?thesis
    by (simp add: send_ticker_def fetch loop_results_failure)
qed

subsection \<open>The example API, evaluated\<close>

lemma strftime_tuesday: "strftime_ymd tuesday = ''2020-03-10''"
  by (simp add: strftime_ymd_def tuesday_def zfill_def string_of_nat.simps digit_char_def)

lemma strftime_monday: "strftime_ymd (minus_one_day tuesday) = ''2020-03-09''"
  by (simp add: strftime_ymd_def tuesday_def minus_one_day_def zfill_def string_of_nat.simps
      digit_char_def)

lemma strftime_sunday: "strftime_ymd (minus_one_day (minus_one_day tuesday)) = ''2020-03-08''"
  by (simp add: strftime_ymd_def tuesday_def minus_one_day_def zfill_def string_of_nat.simps
      digit_char_def)

lemma strftime_saturday:
  "strftime_ymd (minus_one_day (minus_one_day (minus_one_day tuesday))) = ''2020-03-07''"
  by (simp add: strftime_ymd_def tuesday_def minus_one_day_def zfill_def string_of_nat.simps
      digit_char_def)

lemma strftime_friday:
  "strftime_ymd (minus_one_day (minus_one_day (minus_one_day (minus_one_day tuesday))))
     = ''2020-03-06''"
  by (simp add: strftime_ymd_def tuesday_def minus_one_day_def zfill_def string_of_nat.simps
      digit_char_def)

lemmas strftime_days =
  strftime_tuesday strftime_monday strftime_sunday strftime_saturday strftime_friday

lemma market_env_fields:
  "clock market_env = fixed_clock" "http market_env = market_http"
  "float_of_str market_env = float_table"
  by (simp_all add: market_env_def)

lemma aapl_down_env_fields:
  "clock aapl_down_env = fixed_clock" "http aapl_down_env = aapl_down_http"
  "float_of_str aapl_down_env = float_table"
  by (simp_all add: aapl_down_env_def)

lemma three_failures_env_fields:
  "clock three_failures_env = fixed_clock" "http three_failures_env = three_failures_http"
  "float_of_str three_failures_env = float_table"
  by (simp_all add: three_failures_env_def)

lemma params_eval:
  "av_params self ''TIME_SERIES_DAILY'' (Some [(''symbol'', symbol), (''outputsize'', ''compact'')])
     = daily_params self symbol"
  by (simp add: av_params_def daily_params_def)

lemma market_answers:
  "av_response (market_http n (daily_params self ''AAPL'')) = Inr aapl_body"
  "av_response (market_http n (daily_params self ''MSFT'')) = Inr msft_body"
  "av_response (aapl_down_http n (daily_params self ''AAPL'')) = Inl RequestException"
  "av_response (aapl_down_http n (daily_params self ''MSFT'')) = Inr msft_body"
  by (simp_all add: av_response_def market_http_def aapl_down_http_def daily_params_def
      aapl_body_def msft_body_def py_in_def)

lemma series_of_aapl:
  "float_of_str e = float_table \<Longrightarrow>
   time_series_of e aapl_body =
     Inr [(''2020-03-10'', [(''open'', 190), (''close'', 200)]),
          (''2020-03-09'', [(''open'', 95), (''close'', 100)])]"
  by (simp add: time_series_of_def aapl_body_def py_getitem_def py_float_def float_table_def)

lemma series_of_msft:
  "float_of_str e = float_table \<Longrightarrow>
   time_series_of e msft_body =
     Inr [(''2020-03-09'', [(''open'', 95), (''close'', 100)]),
          (''2020-03-06'', [(''open'', 80), (''close'', 80)])]"
  by (simp add: time_series_of_def msft_body_def py_getitem_def py_float_def float_table_def)

lemma series_aapl:
  "get_time_series_daily market_env self ''AAPL'' ''compact'' w =
     (Inr [(''2020-03-10'', [(''open'', 190), (''close'', 200)]),
           (''2020-03-09'', [(''open'', 95), (''close'', 100)])],
      w\<lparr>gets := gets w + 1, trace := trace w @ [HttpGet (daily_params self ''AAPL'')]\<rparr>)"
  by (simp add: get_time_series_daily_def make_av_request_def params_eval MAX_RETRIES_def
      numeral_3_eq_3 av_try_def market_env_fields market_answers series_of_aapl emit_def)

lemma series_msft:
  "http e = market_http \<or> http e = aapl_down_http \<Longrightarrow> float_of_str e = float_table \<Longrightarrow>
   get_time_series_daily e self ''MSFT'' ''compact'' w =
     (Inr [(''2020-03-09'', [(''open'', 95), (''close'', 100)]),
           (''2020-03-06'', [(''open'', 80), (''close'', 80)])],
      w\<lparr>gets := gets w + 1, trace := trace w @ [HttpGet (daily_params self ''MSFT'')]\<rparr>)"
  by (auto simp add: get_time_series_daily_def make_av_request_def params_eval MAX_RETRIES_def
      numeral_3_eq_3 av_try_def market_answers series_of_msft emit_def)

lemma series_aapl_down:
  "get_time_series_daily aapl_down_env self ''AAPL'' ''compact'' w =
     (Inl RequestException,
      w\<lparr>gets := gets w + 3,
        trace := trace w @ [HttpGet (daily_params self ''AAPL''), LogException, Sleep 15,
                            HttpGet (daily_params self ''AAPL''), LogException, Sleep 15,
                            HttpGet (daily_params self ''AAPL''), LogException]\<rparr>)"
  by (simp add: get_time_series_daily_def make_av_request_def params_eval MAX_RETRIES_def
      RETRY_WAIT_def numeral_3_eq_3 av_try_def aapl_down_env_fields market_answers emit_def
      sleep_def)

lemma search_today_aapl:
  "search_back [(''2020-03-10'', a), (''2020-03-09'', b)] tuesday 0 = tuesday"
  by (subst search_back.simps) (simp add: strftime_days)

lemma search_last_aapl:
  "search_back [(''2020-03-10'', a), (''2020-03-09'', b)] (minus_one_day tuesday) 0
     = minus_one_day tuesday"
  by (subst search_back.simps) (simp add: strftime_days)

lemma search_today_msft:
  "search_back [(''2020-03-09'', a), (''2020-03-06'', b)] tuesday 0 = minus_one_day tuesday"
  by (subst search_back.simps, simp add: strftime_days)+

lemma search_last_msft:
  "search_back [(''2020-03-09'', a), (''2020-03-06'', b)] (minus_one_day (minus_one_day tuesday)) 0
     = minus_one_day (minus_one_day (minus_one_day (minus_one_day tuesday)))"
  by (subst search_back.simps, simp add: strftime_days)+

lemma daily_of_aapl_series:
  "clock e = fixed_clock \<Longrightarrow>
   daily_of_series e [(''2020-03-10'', [(''open'', 190), (''close'', 200)]),
                      (''2020-03-09'', [(''open'', 95), (''close'', 100)])] w =
     (Inr \<lparr>current = 200, close_val = 200, open_val = 190, percentage = - 50\<rparr>,
      w\<lparr>reads := reads w + 1\<rparr>)"
  by (simp add: daily_of_series_def est_now_def fixed_clock_def search_today_aapl
      search_last_aapl strftime_days daily_of_def values_getitem_def get_delta_def)

lemma daily_of_msft_series:
  "clock e = fixed_clock \<Longrightarrow>
   daily_of_series e [(''2020-03-09'', [(''open'', 95), (''close'', 100)]),
                      (''2020-03-06'', [(''open'', 80), (''close'', 80)])] w =
     (Inr \<lparr>current = 100, close_val = 100, open_val = 95, percentage = - 20\<rparr>,
      w\<lparr>reads := reads w + 1\<rparr>)"
  by (simp add: daily_of_series_def est_now_def fixed_clock_def search_today_msft
      search_last_msft strftime_days daily_of_def values_getitem_def get_delta_def)

lemma change_of_aapl:
  "clock e = fixed_clock \<Longrightarrow> float_of_str e = float_table \<Longrightarrow>
   change_of_response e ''AAPL'' aapl_body w = (Inr (''AAPL'', - 50), w\<lparr>reads := reads w + 1\<rparr>)"
  by (simp add: change_of_response_def series_of_aapl daily_of_aapl_series)

lemma change_of_msft:
  "clock e = fixed_clock \<Longrightarrow> float_of_str e = float_table \<Longrightarrow>
   change_of_response e ''MSFT'' msft_body w = (Inr (''MSFT'', - 20), w\<lparr>reads := reads w + 1\<rparr>)"
  by (simp add: change_of_response_def series_of_msft daily_of_msft_series)

lemma daily_aapl:
  "get_daily market_env self ''AAPL'' w =
     (Inr \<lparr>current = 200, close_val = 200, open_val = 190, percentage = - 50\<rparr>,
      w\<lparr>reads := reads w + 1, gets := gets w + 1,
        trace := trace w @ [HttpGet (daily_params self ''AAPL'')]\<rparr>)"
  by (simp add: get_daily_def series_aapl daily_of_aapl_series market_env_fields)

lemma daily_msft:
  "http e = market_http \<or> http e = aapl_down_http \<Longrightarrow> float_of_str e = float_table \<Longrightarrow>
   clock e = fixed_clock \<Longrightarrow>
   get_daily e self ''MSFT'' w =
     (Inr \<lparr>current = 100, close_val = 100, open_val = 95, percentage = - 20\<rparr>,
      w\<lparr>reads := reads w + 1, gets := gets w + 1,
        trace := trace w @ [HttpGet (daily_params self ''MSFT'')]\<rparr>)"
  by (simp add: get_daily_def series_msft daily_of_msft_series)

lemma daily_aapl_down:
  "get_daily aapl_down_env self ''AAPL'' w =
     (Inl RequestException,
      w\<lparr>gets := gets w + 3,
        trace := trace w @ [HttpGet (daily_params self ''AAPL''), LogException, Sleep 15,
                            HttpGet (daily_params self ''AAPL''), LogException, Sleep 15,
                            HttpGet (daily_params self ''AAPL''), LogException]\<rparr>)"
  by (simp add: get_daily_def series_aapl_down)

lemma change_aapl:
  "get_daily_change market_env self ''AAPL'' w =
     (Inr (''AAPL'', - 50),
      w\<lparr>reads := reads w + 1, gets := gets w + 1,
        trace := trace w @ [HttpGet (daily_params self ''AAPL'')]\<rparr>)"
  by (simp add: get_daily_change_def daily_aapl)

lemma change_msft:
  "http e = market_http \<or> http e = aapl_down_http \<Longrightarrow> float_of_str e = float_table \<Longrightarrow>
   clock e = fixed_clock \<Longrightarrow>
   get_daily_change e self ''MSFT'' w =
     (Inr (''MSFT'', - 20),
      w\<lparr>reads := reads w + 1, gets := gets w + 1,
        trace := trace w @ [HttpGet (daily_params self ''MSFT'')]\<rparr>)"
  by (simp add: get_daily_change_def daily_msft)

lemma change_aapl_down:
  "get_daily_change aapl_down_env self ''AAPL'' w =
     (Inl RequestException,
      w\<lparr>gets := gets w + 3,
        trace := trace w @ [HttpGet (daily_params self ''AAPL''), LogException, Sleep 15,
                            HttpGet (daily_params self ''AAPL''), LogException, Sleep 15,
                            HttpGet (daily_params self ''AAPL''), LogException]\<rparr>)"
  by (simp add: get_daily_change_def daily_aapl_down)

text \<open>
  The deferreds of the two symbols while every request for AAPL fails: the request for
  MSFT is started before the first answer for AAPL is handled.
\<close>

lemma fetch_aapl_down:
  "fetch_changes aapl_down_env ticker_plugin [''AAPL'', ''MSFT''] world0 =
     ([Inl RequestException, Inr (''MSFT'', - 20)],
      \<lparr>reads = 1, gets = 4,
       trace = [HttpGet (daily_params ticker_plugin ''AAPL''),
                HttpGet (daily_params ticker_plugin ''MSFT''), LogException, Sleep 15,
                HttpGet (daily_params ticker_plugin ''AAPL''), LogException, Sleep 15,
                HttpGet (daily_params ticker_plugin ''AAPL''), LogException]\<rparr>)"
  by (simp add: fetch_changes_def MAX_RETRIES_def RETRY_WAIT_def numeral_3_eq_3 params_eval
      av_try_def aapl_down_env_fields market_answers change_of_msft emit_def sleep_def
      fired_def world0_def)

lemma fetch_market:
  "fetch_changes market_env ticker_plugin [''AAPL'', ''MSFT''] world0 =
     ([Inr (''AAPL'', - 50), Inr (''MSFT'', - 20)],
      \<lparr>reads = 2, gets = 2,
       trace = [HttpGet (daily_params ticker_plugin ''AAPL''),
                HttpGet (daily_params ticker_plugin ''MSFT'')]\<rparr>)"
  by (simp add: fetch_changes_def MAX_RETRIES_def numeral_3_eq_3 params_eval
      av_try_def market_env_fields market_answers change_of_aapl change_of_msft emit_def
      fired_def world0_def)

lemma colorize_minus_20: "colorize (- 20) = [CHR 0x03] @ ''04-20.00%'' @ [CHR 0x03]"
  by (simp add: colorize_def format_2f_def round_half_even_def string_of_nat.simps digit_char_def)

text \<open>
  On an API whose first three requests fail, the two deferreds use up the failures
  between them (AAPL, MSFT, AAPL), both fetches succeed on a later try and the ticker is
  sent.
\<close>

lemma send_ticker_after_three_failures:
  "send_ticker three_failures_env ticker_plugin world0 =
     (Inr (),
      \<lparr>reads = 2, gets = 5,
       trace = [HttpGet (daily_params ticker_plugin ''AAPL''),
                HttpGet (daily_params ticker_plugin ''MSFT''),
                LogException, Sleep 15, LogException, Sleep 15,
                HttpGet (daily_params ticker_plugin ''AAPL''),
                HttpGet (daily_params ticker_plugin ''MSFT''),
                LogException, Sleep 15,
                HttpGet (daily_params ticker_plugin ''AAPL''),
                SendMsg ''#stocks'' (Ticker
                  (''Apple ('' @ [CHR 0x02] @ ''AAPL'' @ [CHR 0x02] @ ''): '' @
                     [CHR 0x03] @ ''04-20.00%'' @ [CHR 0x03] @ '' | '' @
                   ''Microsoft ('' @ [CHR 0x02] @ ''MSFT'' @ [CHR 0x02] @ ''): '' @
                     [CHR 0x03] @ ''04-20.00%'' @ [CHR 0x03]))]\<rparr>)"
proof -
  have answers:
    "n < 3 \<Longrightarrow> av_response (three_failures_http n p) = Inl RequestException"
    "\<not> n < 3 \<Longrightarrow> av_response (three_failures_http n p) = av_response (market_http n p)"
    for n p
    by (simp_all add: three_failures_http_def av_response_def)
  have fetch: "fetch_changes three_failures_env ticker_plugin [''AAPL'', ''MSFT''] world0 =
     ([Inr (''AAPL'', - 50), Inr (''MSFT'', - 20)],
      \<lparr>reads = 2, gets = 5,
       trace = [HttpGet (daily_params ticker_plugin ''AAPL''),
                HttpGet (daily_params ticker_plugin ''MSFT''),
                LogException, Sleep 15, LogException, Sleep 15,
                HttpGet (daily_params ticker_plugin ''AAPL''),
                HttpGet (daily_params ticker_plugin ''MSFT''),
                LogException, Sleep 15,
                HttpGet (daily_params ticker_plugin ''AAPL'')]\<rparr>)"
    by (simp add: fetch_changes_def MAX_RETRIES_def RETRY_WAIT_def numeral_3_eq_3 params_eval
        av_try_def three_failures_env_fields answers market_answers change_of_aapl
        change_of_msft emit_def sleep_def fired_def world0_def)
  have stocks: "map fst (stocks (config ticker_plugin)) = [''AAPL'', ''MSFT'']"
    by (simp add: ticker_plugin_def)
  show ?thesis
    by (simp add: send_ticker_def stocks fetch)
       (simp add: ticker_plugin_def format_symbol_def dict_getitem_def colorize_minus_20 emit_def)
qed

lemma parse_alice:
  "parse_prediction market_env self alice alice_predicts w =
     (Inr (Some (''alice'', ''AAPL'', 399 / 2, 190)),
      w\<lparr>reads := reads w + 2, gets := gets w + 1,
        trace := trace w @ [HttpGet (daily_params self ''AAPL'')]\<rparr>)"
proof -
  have up: "upper ''aapl'' = ''AAPL''"
    by (simp add: upper_def upper_char_def)
  have "market_open_at tuesday"
    by (simp add: market_open_at_def tuesday_def)
  then show ?thesis
    by (simp add: parse_prediction_def alice_predicts_def alice_def up daily_aapl Let_def
        market_is_open_def est_now_def market_env_fields fixed_clock_def float_table_def)
qed

lemma daily_all_down: "fst (get_daily all_down_env self symbol w) = Inl RequestException"
  by (simp add: get_daily_def get_time_series_daily_def make_av_request_def MAX_RETRIES_def
      numeral_3_eq_3 av_try_def av_response_def all_down_env_def all_down_http_def Let_def)

lemma game_run_completes:
  "fst (do_predictions aapl_down_env game_plugin world0) = Inr ()"
  by (simp add: do_predictions_def game_plugin_def ticker_plugin_def daily_aapl_down daily_msft
      aapl_down_env_fields market_is_open_def est_now_def fixed_clock_def market_open_at_def
      tuesday_def send_prediction_def predictions_for_def dict_getitem_def send_each_def
      get_delta_def closest_message_def Let_def)

section \<open>The claims\<close>

text \<open>
  C1. The claim: the daily percentage change of \<open>get_daily\<close> is (today's close /
  the previous trading day's close) * 100 - 100. The code calls
  \<open>get_delta(last_day_value['close'], current_value['close'])\<close>, the previous close as
  \<open>new_value\<close> and today's close as \<open>old_value\<close>. On a series whose close was 100 on
  2020-03-09 and is 200 on 2020-03-10, \<open>get_daily\<close> reports -50 where the claim asks
  for +100.
\<close>

theorem get_daily_percentage_swapped:
  "fst (get_time_series_daily market_env ticker_plugin ''AAPL'' ''compact'' world0) =
     Inr [(''2020-03-10'', [(''open'', 190), (''close'', 200)]),
          (''2020-03-09'', [(''open'', 95), (''close'', 100)])] \<and>
   fst (get_daily market_env ticker_plugin ''AAPL'' world0) =
     Inr \<lparr>current = 200, close_val = 200, open_val = 190, percentage = - 50\<rparr> \<and>
   (200 / 100 * 100 - 100 :: real) = 100"
  by (simp add: series_aapl daily_aapl)

text \<open>
  C2, as amended. \<open>make_av_request\<close> makes at most three requests in all (\<open>MAX_RETRIES\<close>
  counts the tries, so a failed request is retried at most twice): it returns the first
  successful answer at once, with no further request; after a failed first or second
  attempt it logs, sleeps 15 seconds and tries again; after a failed third attempt it
  logs and raises that attempt's exception without sleeping. Here \<open>a k\<close> is the outcome
  of the \<open>k\<close>-th attempt, rate limiting counted as a failure.
\<close>

theorem make_av_request_three_tries:
  "make_av_request e self function params w =
    (let p = AList.update ''datatype'' ''json'' (AList.update ''apikey'' (api_key (config self))
               (AList.update ''function'' function (case params of None \<Rightarrow> [] | Some q \<Rightarrow> q)));
         a = (\<lambda>k. av_response (http e (gets w + k) p))
     in case a 0 of
          Inr r \<Rightarrow> (Inr r, w\<lparr>gets := gets w + 1, trace := trace w @ [HttpGet p]\<rparr>)
        | Inl ex0 \<Rightarrow>
        (case a 1 of
          Inr r \<Rightarrow> (Inr r, w\<lparr>gets := gets w + 2,
                       trace := trace w @ [HttpGet p, LogException, Sleep 15, HttpGet p]\<rparr>)
        | Inl ex1 \<Rightarrow>
        (case a 2 of
          Inr r \<Rightarrow> (Inr r, w\<lparr>gets := gets w + 3,
                       trace := trace w @ [HttpGet p, LogException, Sleep 15,
                                           HttpGet p, LogException, Sleep 15, HttpGet p]\<rparr>)
        | Inl ex2 \<Rightarrow> (Inl ex2, w\<lparr>gets := gets w + 3,
                       trace := trace w @ [HttpGet p, LogException, Sleep 15,
                                           HttpGet p, LogException, Sleep 15,
                                           HttpGet p, LogException]\<rparr>))))"
  by (simp add: make_av_request_def av_params_def MAX_RETRIES_def RETRY_WAIT_def numeral_3_eq_3
        av_try_def emit_def sleep_def Let_def split: sum.splits)

text \<open>
  A request that is throttled once: the second attempt, 15 seconds later, succeeds and
  is returned after two requests.
\<close>

theorem make_av_request_three_tries_witness:
  "make_av_request throttled_once_env ticker_plugin ''TIME_SERIES_DAILY''
       (Some [(''symbol'', ''AAPL''), (''outputsize'', ''compact'')]) world0 =
     (Inr aapl_body,
      \<lparr>reads = 0, gets = 2,
       trace = [HttpGet (daily_params ticker_plugin ''AAPL''), LogException, Sleep 15,
                HttpGet (daily_params ticker_plugin ''AAPL'')]\<rparr>)"
  using make_av_request_three_tries [of throttled_once_env ticker_plugin "''TIME_SERIES_DAILY''"
      "Some [(''symbol'', ''AAPL''), (''outputsize'', ''compact'')]" world0]
  by (simp add: throttled_once_env_def throttled_once_http_def av_response_def throttled_body_def
      aapl_body_def py_in_def py_getitem_def world0_def Let_def daily_params_def)

text \<open>
  C2 as stated (a failed request is retried up to 3 times) fails: when every attempt
  fails, the exception is raised after three requests, the first one and two retries,
  not after 1 + 3.
\<close>

theorem make_av_request_two_retries:
  "make_av_request aapl_down_env ticker_plugin ''TIME_SERIES_DAILY''
       (Some [(''symbol'', ''AAPL''), (''outputsize'', ''compact'')]) world0 =
     (Inl RequestException,
      \<lparr>reads = 0, gets = 3,
       trace = [HttpGet (daily_params ticker_plugin ''AAPL''), LogException, Sleep 15,
                HttpGet (daily_params ticker_plugin ''AAPL''), LogException, Sleep 15,
                HttpGet (daily_params ticker_plugin ''AAPL''), LogException]\<rparr>) \<and>
   gets (snd (make_av_request aapl_down_env ticker_plugin ''TIME_SERIES_DAILY''
       (Some [(''symbol'', ''AAPL''), (''outputsize'', ''compact'')]) world0)) \<noteq> 1 + 3"
  by (simp add: make_av_request_def params_eval MAX_RETRIES_def RETRY_WAIT_def numeral_3_eq_3
      av_try_def aapl_down_env_fields market_answers emit_def sleep_def world0_def)

text \<open>
  C3. Once the series \<open>data\<close> is fetched, \<open>get_daily\<close> reads the clock and looks for
  the most recent date in the data among the current date and the 5 days before it; if
  none of the six is in the data it raises. From the \<open>k\<close>-th day back, the first one
  found, it looks for the next date in the data among the day before that one and the 5
  days before it; if none of these six is in the data it raises, and otherwise its
  result is computed from the values of the two dates found.
\<close>

theorem get_daily_search:
  assumes fetch: "get_time_series_daily e self symbol ''compact'' w = (Inr data, w1)"
  shows
   "((\<forall>i\<le>5. map_of data (strftime_ymd (days_before i (fst (est_now e w1)))) = None) \<longrightarrow>
       fst (get_daily e self symbol w) = Inl DataNotFound) \<and>
    (\<forall>k current_value.
       k \<le> 5 \<and>
       map_of data (strftime_ymd (days_before k (fst (est_now e w1)))) = Some current_value \<and>
       (\<forall>i<k. map_of data (strftime_ymd (days_before i (fst (est_now e w1)))) = None) \<longrightarrow>
       ((\<forall>j\<le>5. map_of data
                  (strftime_ymd (days_before (k + 1 + j) (fst (est_now e w1)))) = None) \<longrightarrow>
          fst (get_daily e self symbol w) = Inl DataNotFound) \<and>
       (\<forall>j last_day_value.
          j \<le> 5 \<and>
          map_of data (strftime_ymd (days_before (k + 1 + j) (fst (est_now e w1))))
            = Some last_day_value \<and>
          (\<forall>i<j. map_of data
                   (strftime_ymd (days_before (k + 1 + i) (fst (est_now e w1)))) = None) \<longrightarrow>
          fst (get_daily e self symbol w) = daily_of current_value last_day_value))"
proof -
  define now where "now = fst (est_now e w1)"
  obtain w2 where now: "est_now e w1 = (now, w2)"
    by (cases "est_now e w1") (simp add: now_def)
  have unfold: "fst (get_daily e self symbol w) =
      (case map_of data (strftime_ymd (search_back data now 0)) of
         None \<Rightarrow> Inl DataNotFound
       | Some current_value \<Rightarrow>
           (case map_of data (strftime_ymd
                   (search_back data (minus_one_day (search_back data now 0)) 0)) of
              None \<Rightarrow> Inl DataNotFound
            | Some last_day_value \<Rightarrow> daily_of current_value last_day_value))"
    by (simp add: get_daily_def daily_of_series_def fetch now Let_def split: option.splits)
  have none: "fst (get_daily e self symbol w) = Inl DataNotFound"
    if "\<forall>i\<le>5. map_of data (strftime_ymd (days_before i now)) = None"
  proof -
    have "map_of data (strftime_ymd (search_back data now 0)) = None"
      using that by (intro search_back_missing) simp_all
    then show ?thesis by (simp add: unfold)
  qed
  have found: "search_back data now 0 = days_before k now"
    if "k \<le> 5" "map_of data (strftime_ymd (days_before k now)) = Some cur"
       "\<forall>i<k. map_of data (strftime_ymd (days_before i now)) = None" for k cur
    using that by (intro search_back_found) simp_all
  have second_none: "fst (get_daily e self symbol w) = Inl DataNotFound"
    if "k \<le> 5" "map_of data (strftime_ymd (days_before k now)) = Some cur"
       "\<forall>i<k. map_of data (strftime_ymd (days_before i now)) = None"
       "\<forall>j\<le>5. map_of data (strftime_ymd (days_before (k + 1 + j) now)) = None" for k cur
  proof -
    have "map_of data (strftime_ymd (search_back data (days_before (k + 1) now) 0)) = None"
      using that(4) by (intro search_back_missing) (simp_all add: days_before_add)
    then show ?thesis
      using that(2) by (simp add: unfold found[OF that(1-3)] minus_one_day_days_before)
  qed
  have second_found: "fst (get_daily e self symbol w) = daily_of cur last"
    if "k \<le> 5" "map_of data (strftime_ymd (days_before k now)) = Some cur"
       "\<forall>i<k. map_of data (strftime_ymd (days_before i now)) = None"
       "j \<le> 5" "map_of data (strftime_ymd (days_before (k + 1 + j) now)) = Some last"
       "\<forall>i<j. map_of data (strftime_ymd (days_before (k + 1 + i) now)) = None" for k cur j last
  proof -
    have "search_back data (days_before (k + 1) now) 0 = days_before j (days_before (k + 1) now)"
      using that(4-6) by (intro search_back_found) (simp_all add: days_before_add)
    then show ?thesis
      using that(2,5)
      by (simp add: unfold found[OF that(1-3)] minus_one_day_days_before days_before_add)
  qed
  show ?thesis
    unfolding now_def[symmetric] using none second_none second_found by blast
qed

text \<open>
  On Tuesday 2020-03-10 the MSFT series has nothing for the day: the first search ends
  one day back, on Monday, and the second, from Sunday, ends two days further back, on
  Friday 2020-03-06.
\<close>

theorem get_daily_search_witness:
  "fst (get_time_series_daily market_env ticker_plugin ''MSFT'' ''compact'' world0) =
     Inr [(''2020-03-09'', [(''open'', 95), (''close'', 100)]),
          (''2020-03-06'', [(''open'', 80), (''close'', 80)])] \<and>
   fst (est_now market_env
          (snd (get_time_series_daily market_env ticker_plugin ''MSFT'' ''compact'' world0)))
     = tuesday \<and>
   strftime_ymd (days_before 0 tuesday) = ''2020-03-10'' \<and>
   strftime_ymd (days_before 1 tuesday) = ''2020-03-09'' \<and>
   strftime_ymd (days_before 2 tuesday) = ''2020-03-08'' \<and>
   strftime_ymd (days_before 3 tuesday) = ''2020-03-07'' \<and>
   strftime_ymd (days_before 4 tuesday) = ''2020-03-06'' \<and>
   fst (get_daily market_env ticker_plugin ''MSFT'' world0) =
     daily_of [(''open'', 95), (''close'', 100)] [(''open'', 80), (''close'', 80)]"
proof -
  let ?data = "[(''2020-03-09'', [(''open'', 95), (''close'', 100)]),
                (''2020-03-06'', [(''open'', 80::real), (''close'', 80::real)])]"
  let ?w1 = "world0\<lparr>gets := gets world0 + 1,
               trace := trace world0 @ [HttpGet (daily_params ticker_plugin ''MSFT'')]\<rparr>"
  have fetch: "get_time_series_daily market_env ticker_plugin ''MSFT'' ''compact'' world0
                 = (Inr ?data, ?w1)"
    by (rule series_msft) (simp_all add: market_env_fields)
  have now: "fst (est_now market_env ?w1) = tuesday"
    by (simp add: est_now_def market_env_fields fixed_clock_def)
  have less2: "\<forall>i<(2::nat). map_of ?data (strftime_ymd (days_before (1 + 1 + i) tuesday)) = None"
  proof (intro allI impI)
    fix i :: nat assume "i < 2"
    then have "i = 0 \<or> i = 1" by auto
    then show "map_of ?data (strftime_ymd (days_before (1 + 1 + i) tuesday)) = None"
      by (auto simp: days_before_def strftime_days)
  qed
  have h1: "(1::nat) \<le> 5 \<and>
      map_of ?data (strftime_ymd (days_before 1 tuesday))
        = Some [(''open'', 95), (''close'', 100)] \<and>
      (\<forall>i<(1::nat). map_of ?data (strftime_ymd (days_before i tuesday)) = None)"
    by (simp add: days_before_unfold strftime_days)
  have h2: "(2::nat) \<le> 5 \<and>
      map_of ?data (strftime_ymd (days_before (1 + 1 + 2) tuesday))
        = Some [(''open'', 80), (''close'', 80)] \<and>
      (\<forall>i<(2::nat). map_of ?data (strftime_ymd (days_before (1 + 1 + i) tuesday)) = None)"
  proof (intro conjI)
    show "(2::nat) \<le> 5" by simp
    show "map_of ?data (strftime_ymd (days_before (1 + 1 + 2) tuesday)) =
            Some [(''open'', 80), (''close'', 80)]"
      by (simp add: days_before_def eval_nat_numeral strftime_days)
    show "\<forall>i<(2::nat). map_of ?data (strftime_ymd (days_before (1 + 1 + i) tuesday)) = None"
      by (rule less2)
  qed
  have "fst (get_daily market_env ticker_plugin ''MSFT'' world0) =
     daily_of [(''open'', 95), (''close'', 100)] [(''open'', 80), (''close'', 80)]"
    using get_daily_search [OF fetch, unfolded now, THEN conjunct2, THEN spec, THEN spec,
        THEN mp, OF h1, THEN conjunct2, THEN spec, THEN spec, THEN mp, OF h2] .
  then show ?thesis
    by (simp add: fetch est_now_def market_env_fields fixed_clock_def days_before_unfold
        strftime_days)
qed

text \<open>
  C4. The claim: a symbol whose fetch failed is logged and left out, and the message
  with the other symbols is still sent. In the code the argument of \<open>logger.error\<close>
  formats two replacement fields with one argument, which raises IndexError: with every
  request for AAPL failing and MSFT fetched, \<open>send_ticker\<close> raises after the four
  requests, \<open>logger.error\<close> is never called and no message is sent.
\<close>

theorem send_ticker_failed_fetch_raises:
  "fst (get_daily_change aapl_down_env ticker_plugin ''AAPL'' world0) = Inl RequestException \<and>
   fst (get_daily_change aapl_down_env ticker_plugin ''MSFT'' world0) = Inr (''MSFT'', - 20) \<and>
   fst (send_ticker aapl_down_env ticker_plugin world0) = Inl IndexError \<and>
   gets (snd (send_ticker aapl_down_env ticker_plugin world0)) = 4 \<and>
   sent_messages (trace (snd (send_ticker aapl_down_env ticker_plugin world0))) = [] \<and>
   logged_errors (trace (snd (send_ticker aapl_down_env ticker_plugin world0))) = 0"
proof -
  have stocks: "map fst (stocks (config ticker_plugin)) = [''AAPL'', ''MSFT'']"
    by (simp add: ticker_plugin_def)
  have failed: "Inl RequestException
      \<in> set (fst (fetch_changes aapl_down_env ticker_plugin
                     (map fst (stocks (config ticker_plugin))) world0))"
    by (simp add: stocks fetch_aapl_down)
  show ?thesis
    by (simp add: send_ticker_failure [OF failed] stocks fetch_aapl_down change_aapl_down
        change_msft aapl_down_env_fields logged_errors_def)
qed

text \<open>
  C5. A run of \<open>do_predictions\<close> that returns leaves the predictions empty, whatever
  the API answered during the run; and failed fetches do not keep a run from returning:
  even when the fetch fails for every symbol, the run returns and the predictions are
  empty after it.
\<close>

theorem do_predictions_clears:
  "(fst (do_predictions e self w) = Inr () \<longrightarrow>
      predictions (fst (snd (do_predictions e self w))) = []) \<and>
   ((\<forall>symbol\<in>set (map fst (predictions self)). \<forall>w'. \<exists>ex.
        fst (get_daily e self symbol w') = Inl ex) \<longrightarrow>
      fst (do_predictions e self w) = Inr () \<and>
      predictions (fst (snd (do_predictions e self w))) = [])"
proof -
  have clears: "predictions (fst (snd (do_predictions e self w))) = []"
    if "fst (do_predictions e self w) = Inr ()"
    using that by (auto simp: do_predictions_def split: prod.splits sum.splits)
  have returns: "fst (do_predictions e self w) = Inr ()"
    if "\<forall>symbol\<in>set (map fst (predictions self)). \<forall>w'. \<exists>ex.
          fst (get_daily e self symbol w') = Inl ex"
    using loop_symbols_all_failed [OF that, of w]
    by (auto simp: do_predictions_def split: prod.splits sum.splits)
  show ?thesis using clears returns by blast
qed

text \<open>
  A run with two symbols in which the fetch of the first one fails, and a run in which
  the API is down for both.
\<close>

theorem do_predictions_clears_witness:
  "fst (get_daily aapl_down_env game_plugin ''AAPL'' world0) = Inl RequestException \<and>
   fst (do_predictions aapl_down_env game_plugin world0) = Inr () \<and>
   predictions (fst (snd (do_predictions aapl_down_env game_plugin world0))) = [] \<and>
   fst (do_predictions all_down_env game_plugin world0) = Inr () \<and>
   predictions (fst (snd (do_predictions all_down_env game_plugin world0))) = []"
proof -
  have one: "predictions (fst (snd (do_predictions aapl_down_env game_plugin world0))) = []"
    using do_predictions_clears [of aapl_down_env game_plugin world0] game_run_completes
    by blast
  have down: "\<forall>symbol\<in>set (map fst (predictions game_plugin)). \<forall>w'. \<exists>ex.
      fst (get_daily all_down_env game_plugin symbol w') = Inl ex"
    by (simp add: daily_all_down)
  have all: "fst (do_predictions all_down_env game_plugin world0) = Inr () \<and>
      predictions (fst (snd (do_predictions all_down_env game_plugin world0))) = []"
    using do_predictions_clears [of all_down_env game_plugin world0] down by blast
  show ?thesis using one all game_run_completes by (simp add: daily_aapl_down)
qed

text \<open>
  C6, as amended. Take a configuration, a dictionary, whose \<open>api_key\<close> is present and
  true (a non-empty string), whose \<open>stocks\<close>, when the key is present, is a value that has a
  length \<open>n\<close> (a mapping of \<open>n\<close> symbols, or a list), and whose \<open>relay_bots\<close>, when
  the key is present, is a list of mappings that each have the keys nick, user and
  vhost. The constructor raises on it if and only if \<open>n\<close> is more than 5, and what it
  raises then is ValueError.
\<close>

theorem init_raises_iff:
  assumes "map_of cfg ''api_key'' = Some key" and "truthy key"
    and "py_len (case map_of cfg ''stocks'' of None \<Rightarrow> JArr [] | Some v \<Rightarrow> v) = Inr n"
    and "(case map_of cfg ''relay_bots'' of None \<Rightarrow> JArr [] | Some v \<Rightarrow> v) = JArr bots"
    and "\<forall>b\<in>set bots. \<exists>kvs. b = JObj kvs \<and> map_of kvs ''nick'' \<noteq> None \<and>
           map_of kvs ''user'' \<noteq> None \<and> map_of kvs ''vhost'' \<noteq> None"
  shows "((\<exists>ex. fst (init e (JObj cfg) w) = Inl ex) = (n > 5)) \<and>
         (n > 5 \<longrightarrow> fst (init e (JObj cfg) w) = Inl ValueError)"
proof -
  let ?cfg = "setdefault (setdefault (setdefault (setdefault cfg ''api_key'' JNull)
                ''channels'' (JArr [])) ''stocks'' (JArr [])) ''relay_bots'' (JArr [])"
  have key: "dict_getitem ?cfg ''api_key'' = Inr key"
    using assms(1) by (simp add: dict_getitem_def map_of_setdefault)
  obtain chans where chans: "dict_getitem ?cfg ''channels'' = Inr chans"
    by (cases "map_of cfg ''channels''") (auto simp: dict_getitem_def map_of_setdefault)
  have stks: "dict_getitem ?cfg ''stocks'' =
                Inr (case map_of cfg ''stocks'' of None \<Rightarrow> JArr [] | Some v \<Rightarrow> v)"
    by (cases "map_of cfg ''stocks''") (auto simp: dict_getitem_def map_of_setdefault)
  have bots: "dict_getitem ?cfg ''relay_bots'' = Inr (JArr bots)"
    using assms(4)
    by (cases "map_of cfg ''relay_bots''") (auto simp: dict_getitem_def map_of_setdefault)
  obtain users where users: "make_relay_bots bots = Inr users"
    using assms(5) make_relay_bots_ok by blast
  have "cfg \<noteq> []" using assms(1) by auto
  then have given: "(if truthy (JObj cfg) then JObj cfg else JObj []) = JObj cfg"
    by (simp add: truthy_def)
  show ?thesis
    using assms(2,3)
    by (simp add: init_def given Let_def key chans stks bots users py_iter_def
        split: prod.splits)
qed

text \<open>
  Six stocks are refused with ValueError, and the same configuration with one stock is
  accepted.
\<close>

theorem init_raises_iff_witness:
  "map_of six_stocks_config ''api_key'' = Some (JStr ''key'') \<and> truthy (JStr ''key'') \<and>
   map_of six_stocks_config ''relay_bots''
     = Some (JArr [JObj [(''nick'', JStr ''relay''), (''user'', JNull), (''vhost'', JNull)]]) \<and>
   map_of [(''nick'', JStr ''relay''), (''user'', JNull), (''vhost'', JNull)] ''nick'' \<noteq> None \<and>
   map_of [(''nick'', JStr ''relay''), (''user'', JNull), (''vhost'', JNull)] ''user'' \<noteq> None \<and>
   map_of [(''nick'', JStr ''relay''), (''user'', JNull), (''vhost'', JNull)] ''vhost'' \<noteq> None \<and>
   py_len (JObj [(''AAPL'', JStr ''Apple''), (''MSFT'', JStr ''Microsoft''),
                 (''GOOG'', JStr ''Google''), (''AMZN'', JStr ''Amazon''),
                 (''TSLA'', JStr ''Tesla''), (''NFLX'', JStr ''Netflix'')]) = Inr 6 \<and>
   fst (init market_env (JObj six_stocks_config) world0) = Inl ValueError \<and>
   py_len (JObj [(''AAPL'', JStr ''Apple'')]) = Inr 1 \<and>
   \<not> (\<exists>ex. fst (init market_env (JObj one_stock_config) world0) = Inl ex)"
proof -
  let ?bot = "JObj [(''nick'', JStr ''relay''), (''user'', JNull), (''vhost'', JNull)]"
  have entries: "\<forall>b\<in>set [?bot]. \<exists>kvs. b = JObj kvs \<and> map_of kvs ''nick'' \<noteq> None \<and>
           map_of kvs ''user'' \<noteq> None \<and> map_of kvs ''vhost'' \<noteq> None"
    by simp
  have six: "fst (init market_env (JObj six_stocks_config) world0) = Inl ValueError"
    using init_raises_iff [of six_stocks_config "JStr ''key''" 6 "[?bot]" market_env world0,
        OF _ _ _ _ entries]
    by (simp add: six_stocks_config_def truthy_def py_len_def)
  have one: "\<not> (\<exists>ex. fst (init market_env (JObj one_stock_config) world0) = Inl ex)"
    using init_raises_iff [of one_stock_config "JStr ''key''" 1 "[?bot]" market_env world0,
        OF _ _ _ _ entries]
    by (simp add: one_stock_config_def truthy_def py_len_def)
  show ?thesis
    using six one by (simp add: six_stocks_config_def truthy_def py_len_def)
qed

text \<open>
  C6 as stated fails: with an \<open>api_key\<close> and a single stock, a relay bot entry that has
  no user key makes the constructor raise KeyError; and with an \<open>api_key\<close> and stocks
  that are null, so with no stock at all, it raises TypeError.
\<close>

theorem init_relay_bot_key_error:
  "map_of relay_config ''api_key'' = Some (JStr ''key'') \<and>
   map_of relay_config ''stocks'' = Some (JObj [(''AAPL'', JStr ''Apple'')]) \<and>
   fst (init market_env (JObj relay_config) world0) = Inl KeyError \<and>
   map_of null_stocks_config ''api_key'' = Some (JStr ''key'') \<and>
   map_of null_stocks_config ''stocks'' = Some JNull \<and>
   fst (init market_env (JObj null_stocks_config) world0) = Inl TypeError"
  by (simp add: relay_config_def null_stocks_config_def init_def setdefault_def dict_getitem_def
      truthy_def py_len_def py_iter_def py_getitem_def emit_def)

text \<open>
  C7. After \<open>save_prediction\<close> the entry of the symbol and the nick is the triple of
  the clock's reading, the base price and the predicted price, and the entry of every
  other pair of a symbol and a nick is what it was.
\<close>

theorem save_prediction_frame:
  "map_of (predictions_for (fst (save_prediction e self symbol nick base prediction w)) symbol)
       nick
     = Some (fst (est_now e w), base, prediction)
   \<and> ((s, n) \<noteq> (symbol, nick) \<longrightarrow>
        map_of (predictions_for (fst (save_prediction e self symbol nick base prediction w)) s) n
          = map_of (predictions_for self s) n)"
  by (auto simp: save_prediction_def predictions_for_def est_now_def update_conv'
      split: option.splits)

theorem save_prediction_frame_witness:
  "map_of (predictions_for
       (fst (save_prediction market_env game_plugin ''AAPL'' ''carol'' 190 180 world0))
       ''AAPL'') ''carol'' = Some (tuesday, 190, 180) \<and>
   map_of (predictions_for
       (fst (save_prediction market_env game_plugin ''AAPL'' ''carol'' 190 180 world0))
       ''AAPL'') ''alice'' = Some (tuesday, 190, 199) \<and>
   map_of (predictions_for
       (fst (save_prediction market_env game_plugin ''AAPL'' ''carol'' 190 180 world0))
       ''MSFT'') ''bob'' = Some (tuesday, 95, 99)"
proof -
  have "map_of (predictions_for game_plugin ''AAPL'') ''alice'' = Some (tuesday, 190, 199)"
       "map_of (predictions_for game_plugin ''MSFT'') ''bob'' = Some (tuesday, 95, 99)"
    by (simp_all add: predictions_for_def game_plugin_def)
  moreover have "fst (est_now market_env world0) = tuesday"
    by (simp add: est_now_def market_env_fields fixed_clock_def)
  ultimately show ?thesis
    using save_prediction_frame [of market_env game_plugin "''AAPL''" "''carol''" 190 180 world0
        "''AAPL''" "''alice''"]
      save_prediction_frame [of market_env game_plugin "''AAPL''" "''carol''" 190 180 world0
        "''MSFT''" "''bob''"]
    by simp
qed

text \<open>
  C8. The claim: each entry of the ticker message shows the change fetched for its own
  symbol. The loop that formats the entries passes the variable \<open>change\<close>, which holds
  the change of the last result, instead of the loop's own \<open>result\<close>: with -50 fetched
  for AAPL and -20 for MSFT, both entries show -20.00%.
\<close>

theorem send_ticker_same_change:
  "fst (get_daily_change market_env ticker_plugin ''AAPL'' world0) = Inr (''AAPL'', - 50) \<and>
   fst (get_daily_change market_env ticker_plugin ''MSFT'' world0) = Inr (''MSFT'', - 20) \<and>
   send_ticker market_env ticker_plugin world0 =
     (Inr (),
      \<lparr>reads = 2, gets = 2,
       trace = [HttpGet (daily_params ticker_plugin ''AAPL''),
                HttpGet (daily_params ticker_plugin ''MSFT''),
                SendMsg ''#stocks'' (Ticker
                  (''Apple ('' @ [CHR 0x02] @ ''AAPL'' @ [CHR 0x02] @ ''): '' @
                     [CHR 0x03] @ ''04-20.00%'' @ [CHR 0x03] @ '' | '' @
                   ''Microsoft ('' @ [CHR 0x02] @ ''MSFT'' @ [CHR 0x02] @ ''): '' @
                     [CHR 0x03] @ ''04-20.00%'' @ [CHR 0x03]))]\<rparr>)"
proof -
  have stocks: "map fst (stocks (config ticker_plugin)) = [''AAPL'', ''MSFT'']"
    by (simp add: ticker_plugin_def)
  have sent: "send_ticker market_env ticker_plugin world0 =
     (Inr (),
      \<lparr>reads = 2, gets = 2,
       trace = [HttpGet (daily_params ticker_plugin ''AAPL''),
                HttpGet (daily_params ticker_plugin ''MSFT''),
                SendMsg ''#stocks'' (Ticker
                  (''Apple ('' @ [CHR 0x02] @ ''AAPL'' @ [CHR 0x02] @ ''): '' @
                     [CHR 0x03] @ ''04-20.00%'' @ [CHR 0x03] @ '' | '' @
                   ''Microsoft ('' @ [CHR 0x02] @ ''MSFT'' @ [CHR 0x02] @ ''): '' @
                     [CHR 0x03] @ ''04-20.00%'' @ [CHR 0x03]))]\<rparr>)"
    by (simp add: send_ticker_def stocks fetch_market)
       (simp add: ticker_plugin_def format_symbol_def dict_getitem_def colorize_minus_20
          emit_def)
  show ?thesis
    by (simp add: sent change_aapl change_msft market_env_fields)
qed

text \<open>
  C9. The claim: a new \<open>!predict\<close> of a user who has a prediction for the symbol
  replaces it and confirms with the old prediction's value and timestamp. The branch
  that builds that text reads \<open>old_datetime\<close>, a name that is never bound: alice, who
  has a prediction for AAPL, sends \<open>!predict aapl +5%\<close>, and \<open>predict\<close> raises
  NameError, keeps her old prediction and sends nothing.
\<close>

theorem predict_replace_raises:
  "map_of (predictions_for game_plugin ''AAPL'') ''alice'' = Some (tuesday, 190, 199) \<and>
   predict market_env game_plugin alice ''#stocks'' alice_predicts world0 =
     (Inl NameError, game_plugin,
      \<lparr>reads = 2, gets = 1, trace = [HttpGet (daily_params game_plugin ''AAPL'')]\<rparr>)"
proof -
  have preds: "predictions_for game_plugin ''AAPL'' = [(''alice'', (tuesday, 190, 199))]"
    by (simp add: predictions_for_def game_plugin_def)
  have same: "game_plugin\<lparr>predictions :=
                 AList.update ''AAPL'' [(''alice'', (tuesday, 190, 199))]
                   (predictions game_plugin)\<rparr> = game_plugin"
    by (simp add: game_plugin_def)
  show ?thesis
    by (simp add: predict_def parse_alice preds same Let_def get_delta_def world0_def)
qed

text \<open>
  C10. \<open>colorize\<close> gives the green format (colour code 09) exactly for a percentage
  above zero and the red one (colour code 04) otherwise; zero is formatted red.
\<close>

theorem colorize_green_iff:
  "(colorize p = [CHR 0x03] @ ''09'' @ format_2f p @ ''%'' @ [CHR 0x03]) = (p > 0)
   \<and> (colorize p = [CHR 0x03] @ ''04'' @ format_2f p @ ''%'' @ [CHR 0x03]) = (\<not> p > 0)
   \<and> colorize 0 = [CHR 0x03] @ ''04'' @ ''0.00'' @ ''%'' @ [CHR 0x03]"
proof -
  have "colorize 0 = [CHR 0x03] @ ''04'' @ ''0.00'' @ ''%'' @ [CHR 0x03]"
    by (simp add: colorize_def format_2f_def round_half_even_def string_of_nat.simps
        digit_char_def)
  then show ?thesis by (simp add: colorize_def)
qed

theorem colorize_green_iff_witness:
  "colorize (5 / 4) = [CHR 0x03] @ ''09'' @ format_2f (5 / 4) @ ''%'' @ [CHR 0x03] \<and>
   colorize (- 20) = [CHR 0x03] @ ''04'' @ format_2f (- 20) @ ''%'' @ [CHR 0x03] \<and>
   colorize 0 = [CHR 0x03] @ ''04'' @ ''0.00'' @ ''%'' @ [CHR 0x03]"
  using colorize_green_iff [of "5 / 4"] colorize_green_iff [of "- 20"] by simp

end
